theory Spec2Isabelle
  imports Complex_Main
begin

section \<open>JavaScript values used by the summary pipeline\<close>

text \<open>
  A JavaScript string is a sequence of UTF-16 code units and \<open>length\<close> counts code
  units, so a string is modelled as the list of its code units.  \<open>js\<close> turns an ASCII
  literal into such a list; characters outside ASCII are written by their code unit.
  JavaScript numbers are modelled exactly: lengths and indices as integers, scores as
  rationals (the rounding of IEEE doubles is not modelled).
\<close>

type_synonym code_unit = nat
type_synonym jsstring = "code_unit list"

definition js :: "string \<Rightarrow> jsstring" where
  "js s = map of_char s"

definition SPACE :: code_unit where
  "SPACE = 32"

text \<open>\<open>text.substring(0, e)\<close> for an integer \<open>e\<close>: a negative end counts as 0 and an
  end beyond the string as its length.\<close>

definition substring0 :: "jsstring \<Rightarrow> int \<Rightarrow> jsstring" where
  "substring0 s e = take (nat e) s"

text \<open>\<open>text.lastIndexOf(c)\<close> for a single code unit: the last index holding \<open>c\<close>,
  or -1.\<close>

fun lastIndexOf :: "jsstring \<Rightarrow> code_unit \<Rightarrow> int" where
  "lastIndexOf [] c = -1"
| "lastIndexOf (x # xs) c =
     (let r = lastIndexOf xs c
      in if 0 \<le> r then r + 1 else if x = c then 0 else -1)"

section \<open>CharacterLimitTruncator: \<open>ensureCharacterLimit\<close>\<close>

text \<open>
  The function of the cloud function (and, word for word, of the client's OpenAI
  service):
  \<^verbatim>\<open>
  function ensureCharacterLimit(text: string, limit: number): string {
      if (!text) return "";
      if (text.length <= limit) { return text; }
      const trimmed = text.substring(0, limit - 3);
      const lastSpace = trimmed.lastIndexOf(" ");
      if (lastSpace > limit * 0.8) {
          return trimmed.substring(0, lastSpace) + "...";
      }
      return trimmed + "...";
  }
  \<close>
  The limit is an integer here (the callers pass 300 and 1000); a negative limit is
  allowed, as in the source.
\<close>

definition ensureCharacterLimit :: "jsstring \<Rightarrow> int \<Rightarrow> jsstring" where
  "ensureCharacterLimit text limit =
     (if text = [] then []
      else if int (length text) \<le> limit then text
      else
        let trimmed = substring0 text (limit - 3);
            lastSpace = lastIndexOf trimmed SPACE
        in if (of_int limit :: rat) * (8 / 10) < of_int lastSpace
           then substring0 trimmed lastSpace @ js ''...''
           else trimmed @ js ''...'')"

section \<open>Book metadata and summary requests\<close>

text \<open>
  \<open>BookMetadata\<close> (client) and \<open>SummaryRequest\<close> (client and cloud function) share
  nine fields; they are modelled as two extensions of one record, so that the shared
  fields keep the names of the source.  \<open>imageLinks\<close> is left out: no function of the
  pipeline reads it.
\<close>

record BookCore =
  title :: jsstring
  authors :: "jsstring list"
  isbn :: jsstring
  description :: jsstring
  categories :: "jsstring list"
  publisher :: jsstring
  publishedDate :: jsstring
  pageCount :: int
  language :: jsstring

record BookMetadata = BookCore +
  averageRating :: rat
  ratingsCount :: int

record SummaryRequest = BookCore +
  targetLanguage :: jsstring

text \<open>\<open>xs.join(sep)\<close>.\<close>

fun join :: "jsstring list \<Rightarrow> jsstring \<Rightarrow> jsstring" where
  "join [] sep = []"
| "join [x] sep = x"
| "join (x # y # ys) sep = x @ sep @ join (y # ys) sep"

text \<open>\<open>Math.round\<close>: the nearest integer, halves upwards.\<close>

definition Math_round :: "rat \<Rightarrow> rat" where
  "Math_round x = of_int \<lfloor>x + 1 / 2\<rfloor>"

section \<open>ConfidenceScorer: \<open>calculateDetailedConfidence\<close> (client, book service)\<close>

datatype source_type =
  book_description_src | publisher_info_src | author_bio_src | category_data_src
  | review_excerpt_src | metadata_src | ai_knowledge_src | fallback_template_src

record SourceAttribution =
  sa_type :: source_type
  content :: jsstring
  reliability :: rat
  relevance :: rat
  sa_length :: rat
  source :: jsstring
  weight :: rat

record ConfidenceFactors =
  cf_sourcesUsed :: rat
  averageSourceRating :: rat
  cf_descriptionLength :: rat
  reviewsCount :: rat
  cf_dataQualityScore :: rat
  cf_aiProcessingScore :: rat
  cf_translationPenalty :: rat

record DetailedBreakdown =
  dataQuality :: rat
  sourceReliability :: rat
  contentCoverage :: rat
  aiProcessing :: rat
  crossValidation :: rat

record ConfidenceMetrics =
  cm_overallScore :: rat
  cm_sourceReliability :: rat
  cm_contentCoverage :: rat
  crossReferenceValidation :: rat
  factors :: ConfidenceFactors
  detailedBreakdown :: DetailedBreakdown
  cm_sourceAttribution :: "SourceAttribution list"

text \<open>
  The local constants of \<open>calculateDetailedConfidence\<close>, each as a function of the
  arguments it is computed from (\<open>bookData\<close>, \<open>usesFallback\<close>,
  \<open>translationApplied\<close>); the unused argument \<open>aiSummary\<close> is left out.
\<close>

definition descriptionLength :: "BookMetadata \<Rightarrow> nat" where
  "descriptionLength bookData = length (description bookData)"

definition hasCompleteMetadata :: "BookMetadata \<Rightarrow> bool" where
  "hasCompleteMetadata bookData =
     (title bookData \<noteq> [] \<and> authors bookData \<noteq> [] \<and> publisher bookData \<noteq> []
      \<and> publishedDate bookData \<noteq> [])"

definition pageCountAvailable :: "BookMetadata \<Rightarrow> bool" where
  "pageCountAvailable bookData = (0 < pageCount bookData)"

definition categoriesAvailable :: "BookMetadata \<Rightarrow> bool" where
  "categoriesAvailable bookData = (0 < length (categories bookData))"

definition dataQualityScore :: "BookMetadata \<Rightarrow> rat" where
  "dataQualityScore bookData =
     min 100
       ((if 100 < descriptionLength bookData then 30
         else of_nat (descriptionLength bookData) / 100 * 30)
        + (if hasCompleteMetadata bookData then 25 else 0)
        + (if pageCountAvailable bookData then 15 else 0)
        + (if categoriesAvailable bookData then 15 else 0)
        + (if 0 < averageRating bookData then 10 else 0)
        + (if 0 < ratingsCount bookData then 5 else 0))"

definition publisherReliability :: "BookMetadata \<Rightarrow> rat" where
  "publisherReliability bookData =
     (if publisher bookData \<noteq> js ''Unknown Publisher'' then 80 else 40)"

text \<open>\<open>bookData.authors?.[0] !== 'Unknown Author'\<close>: an empty author list gives
  \<open>undefined\<close>, which differs from the sentinel.\<close>

definition authorCredibility :: "BookMetadata \<Rightarrow> rat" where
  "authorCredibility bookData =
     (case authors bookData of
        [] \<Rightarrow> 70
      | a # _ \<Rightarrow> if a \<noteq> js ''Unknown Author'' then 70 else 30)"

definition metadataCompleteness :: "BookMetadata \<Rightarrow> rat" where
  "metadataCompleteness bookData = (if hasCompleteMetadata bookData then 90 else 50)"

definition sourceReliabilityScore :: "BookMetadata \<Rightarrow> rat" where
  "sourceReliabilityScore bookData =
     min 100
       (publisherReliability bookData * (3 / 10)
        + authorCredibility bookData * (3 / 10)
        + metadataCompleteness bookData * (4 / 10))"

definition topicCoverage :: "BookMetadata \<Rightarrow> rat" where
  "topicCoverage bookData = min 100 (of_nat (descriptionLength bookData) / 10)"

definition thematicDepth :: "BookMetadata \<Rightarrow> rat" where
  "thematicDepth bookData = (if categoriesAvailable bookData then 80 else 40)"

definition conceptualClarity :: "BookMetadata \<Rightarrow> rat" where
  "conceptualClarity bookData = (if 200 < descriptionLength bookData then 90 else 60)"

definition contentCoverageScore :: "BookMetadata \<Rightarrow> rat" where
  "contentCoverageScore bookData =
     min 100
       (topicCoverage bookData * (4 / 10)
        + thematicDepth bookData * (3 / 10)
        + conceptualClarity bookData * (3 / 10))"

text \<open>The four factors of the AI-processing score (source lines 406 to 409).\<close>

record AiProcessingFactors =
  languageConsistency :: rat
  translationQuality :: rat
  summarizationAccuracy :: rat
  responseCoherence :: rat

definition aiProcessingFactors :: "bool \<Rightarrow> bool \<Rightarrow> AiProcessingFactors" where
  "aiProcessingFactors usesFallback translationApplied =
     \<lparr> languageConsistency = (if usesFallback then 95 else 85),
       translationQuality = (if translationApplied then 75 else 95),
       summarizationAccuracy = (if usesFallback then 80 else 90),
       responseCoherence = (if usesFallback then 85 else 95) \<rparr>"

definition aiProcessingScore :: "bool \<Rightarrow> bool \<Rightarrow> rat" where
  "aiProcessingScore usesFallback translationApplied =
     (let f = aiProcessingFactors usesFallback translationApplied
      in min 100
           (languageConsistency f * (3 / 10)
            + translationQuality f * (3 / 10)
            + summarizationAccuracy f * (2 / 10)
            + responseCoherence f * (2 / 10)))"

definition multiSourceVerification :: "BookMetadata \<Rightarrow> rat" where
  "multiSourceVerification bookData = (if hasCompleteMetadata bookData then 80 else 50)"

definition factualConsistency :: rat where
  "factualConsistency = 85"

definition contextualRelevance :: "BookMetadata \<Rightarrow> rat" where
  "contextualRelevance bookData = (if categoriesAvailable bookData then 90 else 70)"

definition logicalCoherence :: rat where
  "logicalCoherence = 90"

definition crossValidationScore :: "BookMetadata \<Rightarrow> rat" where
  "crossValidationScore bookData =
     min 100
       (multiSourceVerification bookData * (3 / 10)
        + factualConsistency * (2 / 10)
        + contextualRelevance bookData * (3 / 10)
        + logicalCoherence * (2 / 10))"

definition translationPenalty :: "bool \<Rightarrow> rat" where
  "translationPenalty translationApplied = (if translationApplied then 10 else 0)"

definition overallScore :: "BookMetadata \<Rightarrow> bool \<Rightarrow> bool \<Rightarrow> rat" where
  "overallScore bookData usesFallback translationApplied =
     max 0
       (min 100
          ((dataQualityScore bookData * (25 / 100)
            + sourceReliabilityScore bookData * (25 / 100)
            + contentCoverageScore bookData * (2 / 10)
            + aiProcessingScore usesFallback translationApplied * (15 / 100)
            + crossValidationScore bookData * (15 / 100))
           - translationPenalty translationApplied))"

text \<open>The four source-attribution entries.  \<open>description.substring(0, 200) + '...'\<close>
  is never empty, so the alternative \<open>'No description available'\<close> is never taken.
  An empty \<open>categories.join(', ')\<close> is falsy and gives \<open>'Uncategorized'\<close>.\<close>

definition sourceAttribution_client ::
  "BookMetadata \<Rightarrow> bool \<Rightarrow> SourceAttribution list" where
  "sourceAttribution_client bookData usesFallback =
     [ \<lparr> sa_type = book_description_src,
         content = substring0 (description bookData) 200 @ js ''...'',
         reliability = (if 100 < descriptionLength bookData then 90 else 60),
         relevance = 95,
         sa_length = of_nat (descriptionLength bookData),
         source = js ''Google Books API'',
         weight = (if 0 < descriptionLength bookData then 4 / 10 else 0) \<rparr>,
       \<lparr> sa_type = metadata_src,
         content = js ''Title: '' @ title bookData @ js '', Authors: ''
                   @ join (authors bookData) (js '', '') @ js '', Publisher: ''
                   @ publisher bookData,
         reliability = (if hasCompleteMetadata bookData then 95 else 70),
         relevance = 80,
         sa_length = of_nat (length (title bookData)
                       + length (join (authors bookData) (js '', ''))),
         source = js ''Google Books API'',
         weight = 3 / 10 \<rparr>,
       \<lparr> sa_type = category_data_src,
         content = (if join (categories bookData) (js '', '') = []
                    then js ''Uncategorized''
                    else join (categories bookData) (js '', '')),
         reliability = (if categoriesAvailable bookData then 85 else 40),
         relevance = 75,
         sa_length = of_nat (length (join (categories bookData) (js '', ''))),
         source = js ''Google Books API'',
         weight = (if categoriesAvailable bookData then 15 / 100 else 5 / 100) \<rparr>,
       \<lparr> sa_type = (if usesFallback then fallback_template_src else ai_knowledge_src),
         content = (if usesFallback then js ''Language-specific template''
                    else js ''OpenAI GPT knowledge base''),
         reliability = (if usesFallback then 85 else 90),
         relevance = 70,
         sa_length = 0,
         source = (if usesFallback then js ''SmartLibroAI Template''
                   else js ''OpenAI GPT-3.5''),
         weight = (if usesFallback then 15 / 100 else 15 / 100) \<rparr> ]"

definition calculateDetailedConfidence ::
  "BookMetadata \<Rightarrow> bool \<Rightarrow> bool \<Rightarrow> ConfidenceMetrics \<times> SourceAttribution list" where
  "calculateDetailedConfidence bookData usesFallback translationApplied =
     (let sourceAttribution = sourceAttribution_client bookData usesFallback;
          confidenceMetrics =
            \<lparr> cm_overallScore =
                Math_round (overallScore bookData usesFallback translationApplied),
              cm_sourceReliability = Math_round (sourceReliabilityScore bookData),
              cm_contentCoverage = Math_round (contentCoverageScore bookData),
              crossReferenceValidation = Math_round (crossValidationScore bookData),
              factors =
                \<lparr> cf_sourcesUsed =
                    of_nat (length (filter (\<lambda>s. 0 < weight s) sourceAttribution)),
                  averageSourceRating =
                    Math_round (sum_list (map reliability sourceAttribution)
                                / of_nat (length sourceAttribution)),
                  cf_descriptionLength = of_nat (descriptionLength bookData),
                  reviewsCount = of_int (ratingsCount bookData),
                  cf_dataQualityScore = Math_round (dataQualityScore bookData),
                  cf_aiProcessingScore =
                    Math_round (aiProcessingScore usesFallback translationApplied),
                  cf_translationPenalty = translationPenalty translationApplied \<rparr>,
              detailedBreakdown =
                \<lparr> dataQuality = Math_round (dataQualityScore bookData),
                  sourceReliability = Math_round (sourceReliabilityScore bookData),
                  contentCoverage = Math_round (contentCoverageScore bookData),
                  aiProcessing =
                    Math_round (aiProcessingScore usesFallback translationApplied),
                  crossValidation = Math_round (crossValidationScore bookData) \<rparr>,
              cm_sourceAttribution = sourceAttribution \<rparr>
      in (confidenceMetrics, sourceAttribution))"


section \<open>The external generation call and its retry loop (cloud function)\<close>

text \<open>\<open>s.includes(sub)\<close>: \<open>sub\<close> occurs in \<open>s\<close> as a contiguous substring.\<close>

fun js_includes :: "jsstring \<Rightarrow> jsstring \<Rightarrow> bool" where
  "js_includes [] sub = (sub = [])"
| "js_includes (x # xs) sub = (take (length sub) (x # xs) = sub \<or> js_includes xs sub)"

text \<open>
  A thrown error, as far as the code inspects it: \<open>error.status\<close> and
  \<open>error.message\<close>, either of which may be absent.  The completion that
  \<open>openai.chat.completions.create\<close> resolves to is reduced to what the handler reads:
  \<open>completion.choices[0]?.message?.content\<close>.
\<close>

record api_error =
  status :: "nat option"
  message :: "jsstring option"

record completion =
  choice_content :: "jsstring option"

datatype outcome = Resolved completion | Rejected api_error

text \<open>\<open>error.message?.includes(sub)\<close>: \<open>undefined\<close>, hence falsy, without a
  message.\<close>

definition message_includes :: "api_error \<Rightarrow> jsstring \<Rightarrow> bool" where
  "message_includes e sub =
     (case message e of None \<Rightarrow> False | Some m \<Rightarrow> js_includes m sub)"

text \<open>The rate-limit test of \<open>callOpenAIWithRetry\<close>:
  \<^verbatim>\<open>error.status === 429 || error.message?.includes('rate limit')\<close>.\<close>

definition isRateLimit_retry :: "api_error \<Rightarrow> bool" where
  "isRateLimit_retry e = (status e = Some 429 \<or> message_includes e (js ''rate limit''))"

text \<open>
  \<^verbatim>\<open>
  async function callOpenAIWithRetry(openai, params, maxRetries = 3) {
      for (let attempt = 0; attempt < maxRetries; attempt++) {
          try {
              return await openai.chat.completions.create(params);
          } catch (error: any) {
              const isRateLimit = error.status === 429 || error.message?.includes('rate limit');
              if (isRateLimit && attempt < maxRetries - 1) {
                  const delay = Math.pow(2, attempt) * 500;
                  await new Promise(resolve => setTimeout(resolve, delay));
                  continue;
              }
              throw error;
          }
      }
  }
  \<close>
  The external service is a parameter: \<open>create k\<close> is the outcome of the call made
  in attempt \<open>k\<close>.  A run yields how the function ends, the delays it waited (in
  milliseconds, in order) and the number of calls it made.  A loop that falls through
  (\<open>maxRetries = 0\<close>) returns \<open>undefined\<close>.
\<close>

datatype retry_result = Returned completion | Thrown api_error | ReturnedUndefined

record retry_run =
  result :: retry_result
  delays :: "nat list"
  attempts :: nat

function callOpenAIWithRetry_loop ::
  "(nat \<Rightarrow> outcome) \<Rightarrow> nat \<Rightarrow> nat \<Rightarrow> nat list \<Rightarrow> retry_run" where
  "callOpenAIWithRetry_loop create maxRetries attempt waited =
     (if attempt < maxRetries then
        (case create attempt of
           Resolved c \<Rightarrow>
             \<lparr> result = Returned c, delays = waited, attempts = attempt + 1 \<rparr>
         | Rejected e \<Rightarrow>
             if isRateLimit_retry e \<and> int attempt < int maxRetries - 1
             then callOpenAIWithRetry_loop create maxRetries (attempt + 1)
                    (waited @ [2 ^ attempt * 500])
             else \<lparr> result = Thrown e, delays = waited, attempts = attempt + 1 \<rparr>)
      else \<lparr> result = ReturnedUndefined, delays = waited, attempts = attempt \<rparr>)"
  by pat_completeness auto
termination
  by (relation "measure (\<lambda>(create, maxRetries, attempt, waited). maxRetries - attempt)") auto

definition callOpenAIWithRetry :: "(nat \<Rightarrow> outcome) \<Rightarrow> nat \<Rightarrow> retry_run" where
  "callOpenAIWithRetry create maxRetries = callOpenAIWithRetry_loop create maxRetries 0 []"

text \<open>An error that carries the HTTP status 429 and nothing else.\<close>

definition error_429 :: api_error where
  "error_429 = \<lparr> status = Some 429, message = None \<rparr>"

section \<open>Rate and quota counters (cloud function)\<close>

text \<open>Decimal rendering of a number that is an integer, as string concatenation and
  template literals produce it.\<close>

fun nat_toString :: "nat \<Rightarrow> jsstring" where
  "nat_toString n =
     (if n < 10 then [48 + n] else nat_toString (n div 10) @ [48 + n mod 10])"

definition int_toString :: "int \<Rightarrow> jsstring" where
  "int_toString i = (if i < 0 then 45 # nat_toString (nat (- i)) else nat_toString (nat i))"

text \<open>
  The Firestore database holds two collections of counter documents, \<open>rateLimits\<close>
  and \<open>globalUsage\<close>, each a map from document ids to documents
  \<open>{count, timestamp}\<close>.  The state also records every access in order, so that
  "not read" can be stated.  Requests are served one after the other.
\<close>

datatype collection = RateLimits | GlobalUsage

record counter_doc =
  count :: int
  timestamp :: nat

datatype db_op = Get collection jsstring | Set collection jsstring counter_doc

record firestore =
  rateLimits :: "jsstring \<rightharpoonup> counter_doc"
  globalUsage :: "jsstring \<rightharpoonup> counter_doc"
  oplog :: "db_op list"

definition empty_firestore :: firestore where
  "empty_firestore = \<lparr> rateLimits = Map.empty, globalUsage = Map.empty, oplog = [] \<rparr>"

definition MAX_REQUESTS_PER_HOUR :: int where
  "MAX_REQUESTS_PER_HOUR = 10"

definition MAX_GLOBAL_REQUESTS_PER_MONTH :: int where
  "MAX_GLOBAL_REQUESTS_PER_MONTH = 1000"

text \<open>
  \<^verbatim>\<open>
  async function isRateLimited(ip: string): Promise<boolean> {
      const now = Date.now();
      const hourStart = new Date(now - (now % (60 * 60 * 1000)));
      const docRef = db.collection("rateLimits").doc(ip + "_" + hourStart.getTime());
      const doc = await docRef.get();
      if (doc.exists && doc.data()?.count >= MAX_REQUESTS_PER_HOUR) { return true; }
      await docRef.set({ count: (doc.data()?.count || 0) + 1, timestamp: hourStart },
                       { merge: true });
      return false;
  }
  \<close>
  \<open>now\<close> is the reading of \<open>Date.now()\<close>, in milliseconds.
\<close>

definition hourStart :: "nat \<Rightarrow> nat" where
  "hourStart now = now - now mod (60 * 60 * 1000)"

definition rateLimitDocId :: "jsstring \<Rightarrow> nat \<Rightarrow> jsstring" where
  "rateLimitDocId ip now = ip @ js ''_'' @ nat_toString (hourStart now)"

definition isRateLimited :: "jsstring \<Rightarrow> nat \<Rightarrow> firestore \<Rightarrow> bool \<times> firestore" where
  "isRateLimited ip now db =
     (let docId = rateLimitDocId ip now;
          doc = rateLimits db docId;
          db1 = db\<lparr> oplog := oplog db @ [Get RateLimits docId] \<rparr>
      in if (case doc of None \<Rightarrow> False | Some d \<Rightarrow> MAX_REQUESTS_PER_HOUR \<le> count d)
         then (True, db1)
         else
           let newDoc = \<lparr> count = (case doc of None \<Rightarrow> 0 | Some d \<Rightarrow> count d) + 1,
                          timestamp = hourStart now \<rparr>
           in (False, db1\<lparr> rateLimits := (rateLimits db1)(docId \<mapsto> newDoc),
                            oplog := oplog db1 @ [Set RateLimits docId newDoc] \<rparr>))"

text \<open>
  \<^verbatim>\<open>
  async function isGlobalLimitReached(): Promise<boolean> {
      const now = new Date();
      const monthKey = `${now.getFullYear()}-${now.getMonth() + 1}`;
      const docRef = db.collection("globalUsage").doc(monthKey);
      const doc = await docRef.get();
      if (doc.exists && doc.data()?.count >= MAX_GLOBAL_REQUESTS_PER_MONTH) { return true; }
      await docRef.set({ count: (doc.data()?.count || 0) + 1, timestamp: now },
                       { merge: true });
      return false;
  }
  \<close>
  A \<open>Date\<close> is given by the three readings the code takes of it.
\<close>

record js_date =
  getTime :: nat
  getFullYear :: int
  getMonth :: nat

definition monthKey :: "js_date \<Rightarrow> jsstring" where
  "monthKey now = int_toString (getFullYear now) @ js ''-'' @ nat_toString (getMonth now + 1)"

definition isGlobalLimitReached :: "js_date \<Rightarrow> firestore \<Rightarrow> bool \<times> firestore" where
  "isGlobalLimitReached now db =
     (let docId = monthKey now;
          doc = globalUsage db docId;
          db1 = db\<lparr> oplog := oplog db @ [Get GlobalUsage docId] \<rparr>
      in if (case doc of None \<Rightarrow> False
             | Some d \<Rightarrow> MAX_GLOBAL_REQUESTS_PER_MONTH \<le> count d)
         then (True, db1)
         else
           let newDoc = \<lparr> count = (case doc of None \<Rightarrow> 0 | Some d \<Rightarrow> count d) + 1,
                          timestamp = getTime now \<rparr>
           in (False, db1\<lparr> globalUsage := (globalUsage db1)(docId \<mapsto> newDoc),
                            oplog := oplog db1 @ [Set GlobalUsage docId newDoc] \<rparr>))"

section \<open>LanguageGuard of the cloud function: \<open>cleanMixedLanguageText\<close>\<close>

text \<open>
  Every pattern of the function is \<^verbatim>\<open>/\bword\b/gi\<close> for an ASCII word.  \<open>\b\<close> holds
  between two positions when exactly one of the neighbouring code units is a word
  character \<open>[A-Za-z0-9_]\<close> (a missing neighbour is none).  With the flag \<open>i\<close> and
  without \<open>u\<close>, two code units match when their canonical forms agree; the canonical
  form of an ASCII letter is its upper case, and a code unit outside ASCII never
  canonicalises to an ASCII one, so for the ASCII patterns used here only the ASCII
  case folding matters.
\<close>

definition isWordChar :: "code_unit \<Rightarrow> bool" where
  "isWordChar c =
     ((48 \<le> c \<and> c \<le> 57) \<or> (65 \<le> c \<and> c \<le> 90) \<or> c = 95 \<or> (97 \<le> c \<and> c \<le> 122))"

definition canonicalize :: "code_unit \<Rightarrow> code_unit" where
  "canonicalize c = (if 97 \<le> c \<and> c \<le> 122 then c - 32 else c)"

text \<open>The word matches case-insensitively at the head of \<open>rest\<close>, with a word boundary
  before it (\<open>prevIsWord\<close> tells whether the code unit before is a word character)
  and after it.\<close>

definition wordMatchesAt :: "jsstring \<Rightarrow> bool \<Rightarrow> jsstring \<Rightarrow> bool" where
  "wordMatchesAt word prevIsWord rest =
     (let n = length word;
          matched = take n rest;
          after = drop n rest
      in length matched = n
         \<and> map canonicalize matched = map canonicalize word
         \<and> prevIsWord \<noteq> (case matched of [] \<Rightarrow> False | c # _ \<Rightarrow> isWordChar c)
         \<and> (case matched of [] \<Rightarrow> False | _ # _ \<Rightarrow> isWordChar (last matched))
             \<noteq> (case after of [] \<Rightarrow> False | c # _ \<Rightarrow> isWordChar c))"

text \<open>\<^verbatim>\<open>text.replace(/\bword\b/gi, replacement)\<close> for a non-empty word and a replacement
  without \<open>$\<close>: a left-to-right scan; a match is replaced and the scan goes on behind
  it (\<open>skip\<close> counts the matched code units still to pass over), so the output of a
  replacement is never scanned again.\<close>

fun replaceWord_scan :: "jsstring \<Rightarrow> jsstring \<Rightarrow> bool \<Rightarrow> nat \<Rightarrow> jsstring \<Rightarrow> jsstring" where
  "replaceWord_scan word replacement prevIsWord skip [] = []"
| "replaceWord_scan word replacement prevIsWord skip (c # cs) =
     (if 0 < skip
      then replaceWord_scan word replacement (isWordChar c) (skip - 1) cs
      else if wordMatchesAt word prevIsWord (c # cs)
      then replacement @ replaceWord_scan word replacement (isWordChar c) (length word - 1) cs
      else c # replaceWord_scan word replacement (isWordChar c) 0 cs)"

definition replaceWord :: "jsstring \<Rightarrow> jsstring \<Rightarrow> jsstring \<Rightarrow> jsstring" where
  "replaceWord word replacement text = replaceWord_scan word replacement False 0 text"

text \<open>A list of substitutions applied one after the other, in the order of the list:
  each works on the output of the one before.\<close>

definition applyReplacements :: "(jsstring \<times> jsstring) list \<Rightarrow> jsstring \<Rightarrow> jsstring" where
  "applyReplacements table text = foldl (\<lambda>t (word, replacement). replaceWord word replacement t) text table"

text \<open>The substitutions of \<open>cleanMixedLanguageText\<close>, per target language, in the
  order in which the function applies them.\<close>

definition replacements_es :: "(jsstring \<times> jsstring) list" where
  "replacements_es =
     [ (js ''anthropology'', js ''antropolog'' @ [237] @ js ''a''),
       (js ''science'', js ''ciencia''),
       (js ''history'', js ''historia''),
       (js ''technology'', js ''tecnolog'' @ [237] @ js ''a''),
       (js ''psychology'', js ''psicolog'' @ [237] @ js ''a''),
       (js ''philosophy'', js ''filosof'' @ [237] @ js ''a''),
       (js ''economics'', js ''econom'' @ [237] @ js ''a''),
       (js ''politics'', js ''pol'' @ [237] @ js ''tica''),
       (js ''sociology'', js ''sociolog'' @ [237] @ js ''a''),
       (js ''literature'', js ''literatura''),
       (js ''education'', js ''educaci'' @ [243] @ js ''n''),
       (js ''business'', js ''negocios''),
       (js ''health'', js ''salud''),
       (js ''biography'', js ''biograf'' @ [237] @ js ''a''),
       (js ''fiction'', js ''ficci'' @ [243] @ js ''n''),
       (js ''art'', js ''arte''),
       (js ''religion'', js ''religi'' @ [243] @ js ''n'') ]"

definition replacements_de :: "(jsstring \<times> jsstring) list" where
  "replacements_de =
     [ (js ''science'', js ''Wissenschaft''),
       (js ''history'', js ''Geschichte''),
       (js ''technology'', js ''Technologie''),
       (js ''psychology'', js ''Psychologie''),
       (js ''philosophy'', js ''Philosophie''),
       (js ''economics'', js ''Wirtschaft''),
       (js ''politics'', js ''Politik''),
       (js ''sociology'', js ''Soziologie''),
       (js ''literature'', js ''Literatur''),
       (js ''education'', js ''Bildung''),
       (js ''business'', js ''Gesch'' @ [228] @ js ''ft''),
       (js ''health'', js ''Gesundheit''),
       (js ''biography'', js ''Biographie''),
       (js ''fiction'', js ''Fiktion''),
       (js ''anthropology'', js ''Anthropologie''),
       (js ''work'', js ''Werk''),
       (js ''offers'', js ''bietet''),
       (js ''explores'', js ''erforscht''),
       (js ''presents'', js ''pr'' @ [228] @ js ''sentiert''),
       (js ''analysis'', js ''Analyse''),
       (js ''perspectives'', js ''Perspektiven''),
       (js ''understanding'', js ''Verst'' @ [228] @ js ''ndnis''),
       (js ''art'', js ''Kunst''),
       (js ''religion'', js ''Religion'') ]"

definition replacements_pt :: "(jsstring \<times> jsstring) list" where
  "replacements_pt =
     [ (js ''science'', js ''ci'' @ [234] @ js ''ncia''),
       (js ''history'', js ''hist'' @ [243] @ js ''ria''),
       (js ''technology'', js ''tecnologia''),
       (js ''psychology'', js ''psicologia''),
       (js ''philosophy'', js ''filosofia''),
       (js ''economics'', js ''economia''),
       (js ''politics'', js ''pol'' @ [237] @ js ''tica''),
       (js ''sociology'', js ''sociologia''),
       (js ''literature'', js ''literatura''),
       (js ''education'', js ''educa'' @ [231, 227] @ js ''o''),
       (js ''business'', js ''neg'' @ [243] @ js ''cios''),
       (js ''health'', js ''sa'' @ [250] @ js ''de''),
       (js ''biography'', js ''biografia''),
       (js ''fiction'', js ''fic'' @ [231, 227] @ js ''o''),
       (js ''anthropology'', js ''antropologia''),
       (js ''art'', js ''arte''),
       (js ''religion'', js ''religi'' @ [227] @ js ''o''),
       (js ''work'', js ''obra''),
       (js ''offers'', js ''oferece''),
       (js ''explores'', js ''explora''),
       (js ''presents'', js ''apresenta''),
       (js ''analysis'', js ''an'' @ [225] @ js ''lise''),
       (js ''perspectives'', js ''perspectivas''),
       (js ''understanding'', js ''compreens'' @ [227] @ js ''o'') ]"

definition replacements_it :: "(jsstring \<times> jsstring) list" where
  "replacements_it =
     [ (js ''science'', js ''scienza''),
       (js ''history'', js ''storia''),
       (js ''technology'', js ''tecnologia''),
       (js ''psychology'', js ''psicologia''),
       (js ''philosophy'', js ''filosofia''),
       (js ''economics'', js ''economia''),
       (js ''politics'', js ''politica''),
       (js ''sociology'', js ''sociologia''),
       (js ''literature'', js ''letteratura''),
       (js ''education'', js ''educazione''),
       (js ''business'', js ''affari''),
       (js ''health'', js ''salute''),
       (js ''biography'', js ''biografia''),
       (js ''fiction'', js ''narrativa''),
       (js ''anthropology'', js ''antropologia''),
       (js ''art'', js ''arte''),
       (js ''religion'', js ''religione''),
       (js ''work'', js ''opera''),
       (js ''offers'', js ''offre''),
       (js ''explores'', js ''esplora''),
       (js ''presents'', js ''presenta''),
       (js ''analysis'', js ''analisi''),
       (js ''perspectives'', js ''prospettive''),
       (js ''understanding'', js ''comprensione'') ]"

text \<open>
  \<^verbatim>\<open>
  function cleanMixedLanguageText(text: string, targetLanguage: string): string {
      if (targetLanguage === 'es') { text = text.replace(/\banthropology\b/gi, ...); ... }
      else if (targetLanguage === 'de') { ... }
      else if (targetLanguage === 'pt') { ... }
      else if (targetLanguage === 'it') { ... }
      return text;
  }
  \<close>
\<close>

definition cleanMixedLanguageText :: "jsstring \<Rightarrow> jsstring \<Rightarrow> jsstring" where
  "cleanMixedLanguageText text targetLang =
     (if targetLang = js ''es'' then applyReplacements replacements_es text
      else if targetLang = js ''de'' then applyReplacements replacements_de text
      else if targetLang = js ''pt'' then applyReplacements replacements_pt text
      else if targetLang = js ''it'' then applyReplacements replacements_it text
      else text)"

section \<open>FallbackGenerator of the cloud function\<close>

text \<open>
  The terms of this section are the tables and templates of
  \<open>generateFallbackShortSummary\<close>, \<open>generateFallbackDetailedSummary\<close> and
  \<open>cleanMixedLanguageText\<close>, entry by entry and in the order of the source.  Code
  units that are not plain ASCII letters, digits or common punctuation are written as
  numbers (34 is the double quote, 39 the apostrophe, 233 is e with acute, ...).
  \<open>String.prototype.toLowerCase\<close> follows the Unicode case mapping of the runtime;
  it is a parameter of the model (field \<open>toLowerCase\<close> of the runtime record), as
  is \<open>JSON.parse\<close>.  Object lookups find own properties only.
\<close>

text \<open>What the handler reads of the parsed response of the model; a field is
  \<open>None\<close> when the response does not have it.\<close>

record parsed_response =
  pr_shortSummary :: "jsstring option"
  pr_detailedSummary :: "jsstring option"
  pr_confidenceScore :: "rat option"
  pr_reasoningFactors :: "jsstring list option"
  pr_sourcesUsed :: "jsstring list option"

text \<open>The runtime: \<open>toLowerCase\<close>, and \<open>JSON.parse\<close> followed by the reading of the
  five fields, which yields the fields or throws an error with a message.\<close>

record js_runtime =
  toLowerCase :: "jsstring \<Rightarrow> jsstring"
  JSON_parse :: "jsstring \<Rightarrow> jsstring + parsed_response"

record template_pair =
  template :: jsstring
  fallback :: jsstring

text \<open>\<open>xs[0] || d\<close>: the first element unless it is missing or empty.\<close>

definition first_or :: "jsstring list \<Rightarrow> jsstring \<Rightarrow> jsstring" where
  "first_or xs d = (case xs of [] \<Rightarrow> d | x # _ \<Rightarrow> if x \<noteq> [] then x else d)"

text \<open>The table \<open>translations\<close> of \<open>translateCategory\<close>; both generators
  declare the same one.\<close>

definition category_translations :: "(jsstring \<times> (jsstring \<times> jsstring) list) list" where
  "category_translations =
     [ (js ''es'',
         [ (js ''Science'', js ''Ciencia''),
           (js ''History'', js ''Historia''),
           (js ''Technology'', js ''Tecnolog'' @ [237] @ js ''a''),
           (js ''Philosophy'', js ''Filosof'' @ [237] @ js ''a''),
           (js ''Psychology'', js ''Psicolog'' @ [237] @ js ''a''),
           (js ''Education'', js ''Educaci'' @ [243] @ js ''n''),
           (js ''Business'', js ''Negocios''),
           (js ''Health'', js ''Salud''),
           (js ''Fiction'', js ''Ficci'' @ [243] @ js ''n''),
           (js ''Biography'', js ''Biograf'' @ [237] @ js ''a''),
           (js ''Anthropology'', js ''Antropolog'' @ [237] @ js ''a''),
           (js ''Politics'', js ''Pol'' @ [237] @ js ''tica''),
           (js ''Economics'', js ''Econom'' @ [237] @ js ''a''),
           (js ''Sociology'', js ''Sociolog'' @ [237] @ js ''a''),
           (js ''Literature'', js ''Literatura''),
           (js ''Art'', js ''Arte''),
           (js ''Religion'', js ''Religi'' @ [243] @ js ''n''),
           (js ''Strategy'', js ''Estrategia''),
           (js ''Military'', js ''Militar''),
           (js ''War'', js ''Guerra''),
           (js ''Management'', js ''Gesti'' @ [243] @ js ''n''),
           (js ''Leadership'', js ''Liderazgo'') ]),
       (js ''fr'',
         [ (js ''Science'', js ''Science''),
           (js ''History'', js ''Histoire''),
           (js ''Technology'', js ''Technologie''),
           (js ''Philosophy'', js ''Philosophie''),
           (js ''Psychology'', js ''Psychologie''),
           (js ''Education'', [201] @ js ''ducation''),
           (js ''Business'', js ''Affaires''),
           (js ''Health'', js ''Sant'' @ [233]),
           (js ''Fiction'', js ''Fiction''),
           (js ''Biography'', js ''Biographie''),
           (js ''Anthropology'', js ''Anthropologie''),
           (js ''Politics'', js ''Politique''),
           (js ''Economics'', [201] @ js ''conomie''),
           (js ''Sociology'', js ''Sociologie''),
           (js ''Literature'', js ''Litt'' @ [233] @ js ''rature''),
           (js ''Art'', js ''Art''),
           (js ''Religion'', js ''Religion''),
           (js ''Strategy'', js ''Strat'' @ [233] @ js ''gie''),
           (js ''Military'', js ''Militaire''),
           (js ''War'', js ''Guerre''),
           (js ''Management'', js ''Gestion''),
           (js ''Leadership'', js ''Leadership'') ]),
       (js ''de'',
         [ (js ''Science'', js ''Wissenschaft''),
           (js ''History'', js ''Geschichte''),
           (js ''Technology'', js ''Technologie''),
           (js ''Philosophy'', js ''Philosophie''),
           (js ''Psychology'', js ''Psychologie''),
           (js ''Education'', js ''Bildung''),
           (js ''Business'', js ''Gesch'' @ [228] @ js ''ft''),
           (js ''Health'', js ''Gesundheit''),
           (js ''Fiction'', js ''Fiktion''),
           (js ''Biography'', js ''Biographie''),
           (js ''Literature'', js ''Literatur''),
           (js ''Anthropology'', js ''Anthropologie''),
           (js ''Politics'', js ''Politik''),
           (js ''Economics'', js ''Wirtschaft''),
           (js ''Sociology'', js ''Soziologie''),
           (js ''Art'', js ''Kunst''),
           (js ''Religion'', js ''Religion''),
           (js ''Strategy'', js ''Strategie''),
           (js ''Military'', js ''Milit'' @ [228] @ js ''r''),
           (js ''War'', js ''Krieg''),
           (js ''Management'', js ''Verwaltung''),
           (js ''Leadership'', js ''F'' @ [252] @ js ''hrung'') ]),
       (js ''pt'',
         [ (js ''Science'', js ''Ci'' @ [234] @ js ''ncia''),
           (js ''History'', js ''Hist'' @ [243] @ js ''ria''),
           (js ''Technology'', js ''Tecnologia''),
           (js ''Philosophy'', js ''Filosofia''),
           (js ''Psychology'', js ''Psicologia''),
           (js ''Education'', js ''Educa'' @ [231, 227] @ js ''o''),
           (js ''Business'', js ''Neg'' @ [243] @ js ''cios''),
           (js ''Health'', js ''Sa'' @ [250] @ js ''de''),
           (js ''Fiction'', js ''Fic'' @ [231, 227] @ js ''o''),
           (js ''Biography'', js ''Biografia''),
           (js ''Anthropology'', js ''Antropologia''),
           (js ''Politics'', js ''Pol'' @ [237] @ js ''tica''),
           (js ''Economics'', js ''Economia''),
           (js ''Sociology'', js ''Sociologia''),
           (js ''Literature'', js ''Literatura''),
           (js ''Art'', js ''Arte''),
           (js ''Religion'', js ''Religi'' @ [227] @ js ''o''),
           (js ''Strategy'', js ''Estrat'' @ [233] @ js ''gia''),
           (js ''Military'', js ''Militar''),
           (js ''War'', js ''Guerra''),
           (js ''Management'', js ''Gest'' @ [227] @ js ''o''),
           (js ''Leadership'', js ''Lideran'' @ [231] @ js ''a'') ]),
       (js ''it'',
         [ (js ''Science'', js ''Scienza''),
           (js ''History'', js ''Storia''),
           (js ''Technology'', js ''Tecnologia''),
           (js ''Philosophy'', js ''Filosofia''),
           (js ''Psychology'', js ''Psicologia''),
           (js ''Education'', js ''Educazione''),
           (js ''Business'', js ''Affari''),
           (js ''Health'', js ''Salute''),
           (js ''Fiction'', js ''Narrativa''),
           (js ''Biography'', js ''Biografia''),
           (js ''Anthropology'', js ''Antropologia''),
           (js ''Politics'', js ''Politica''),
           (js ''Economics'', js ''Economia''),
           (js ''Sociology'', js ''Sociologia''),
           (js ''Literature'', js ''Letteratura''),
           (js ''Art'', js ''Arte''),
           (js ''Religion'', js ''Religione''),
           (js ''Strategy'', js ''Strategia''),
           (js ''Military'', js ''Militare''),
           (js ''War'', js ''Guerra''),
           (js ''Management'', js ''Gestione''),
           (js ''Leadership'', js ''Leadership'') ]) ]"

text \<open>\<^verbatim>\<open>translations[targetLang]?.[category] || category.toLowerCase()\<close>\<close>

definition translateCategory :: "js_runtime \<Rightarrow> jsstring \<Rightarrow> jsstring \<Rightarrow> jsstring" where
  "translateCategory rt category targetLang =
     (case map_of category_translations targetLang of
        None \<Rightarrow> toLowerCase rt category
      | Some table \<Rightarrow>
          (case map_of table category of
             None \<Rightarrow> toLowerCase rt category
           | Some t \<Rightarrow> if t \<noteq> [] then t else toLowerCase rt category))"

text \<open>The \<open>languageMap\<close> of \<open>generateFallbackShortSummary\<close>.\<close>

definition languageMap_short ::
  "js_runtime \<Rightarrow> SummaryRequest \<Rightarrow> jsstring list \<Rightarrow> (jsstring \<times> template_pair) list" where
  "languageMap_short rt request translatedCategories =
     [ (js ''es'',
         \<lparr> template =
             [34] @ title request @ [34] @ js '' por '' @ join (authors request) (js '', '')
             @ js '' es una obra de '' @ first_or translatedCategories (js ''importancia'')
             @ js '' publicada en '' @ publishedDate request @ js ''. ''
             @ (if 0 < pageCount request then js ''Esta obra de '' @ int_toString (pageCount request) @ js '' p'' @ [225] @ js ''ginas'' else js ''Este libro'')
             @ js '' ofrece perspectivas sobre ''
             @ toLowerCase rt (join translatedCategories (js '', '')) @ js ''.'',
           fallback =
             [34] @ title request @ [34]
             @ js '' es una obra importante que explora temas fundamentales en su campo de estudio.'' \<rparr>),
       (js ''en'',
         \<lparr> template =
             [34] @ title request @ [34] @ js '' by '' @ join (authors request) (js '', '')
             @ js '' is a '' @ first_or translatedCategories (js ''important'')
             @ js '' work published in '' @ publishedDate request @ js ''. ''
             @ (if 0 < pageCount request then js ''This '' @ int_toString (pageCount request) @ js ''-page book'' else js ''This book'')
             @ js '' offers insights into ''
             @ toLowerCase rt (join translatedCategories (js '', '')) @ js ''.'',
           fallback =
             [34] @ title request @ [34]
             @ js '' is an important work that explores fundamental themes in its field of study.'' \<rparr>),
       (js ''fr'',
         \<lparr> template =
             [34] @ title request @ [34] @ js '' par '' @ join (authors request) (js '', '')
             @ js '' est une '' @ [339] @ js ''uvre de ''
             @ first_or translatedCategories (js ''importance'') @ js '' publi'' @ [233]
             @ js ''e en '' @ publishedDate request @ js ''. ''
             @ (if 0 < pageCount request then js ''Ce livre de '' @ int_toString (pageCount request) @ js '' pages'' else js ''Ce livre'')
             @ js '' offre des perspectives sur ''
             @ toLowerCase rt (join translatedCategories (js '', '')) @ js ''.'',
           fallback =
             [34] @ title request @ [34] @ js '' est une '' @ [339]
             @ js ''uvre importante qui explore des th'' @ [232]
             @ js ''mes fondamentaux dans son domaine d'' @ [39, 233] @ js ''tude.'' \<rparr>),
       (js ''de'',
         \<lparr> template =
             [34] @ title request @ [34] @ js '' von '' @ join (authors request) (js '', '')
             @ js '' ist ein Werk im Bereich ''
             @ first_or translatedCategories (js ''Wichtigkeit'') @ js '', ver'' @ [246]
             @ js ''ffentlicht '' @ publishedDate request @ js ''. ''
             @ (if 0 < pageCount request then js ''Dieses '' @ int_toString (pageCount request) @ js ''-seitige Buch'' else js ''Dieses Buch'')
             @ js '' bietet Einblicke in ''
             @ toLowerCase rt (join translatedCategories (js '', '')) @ js ''.'',
           fallback =
             [34] @ title request @ [34]
             @ js '' ist ein wichtiges Werk, das grundlegende Themen in seinem Studienbereich erforscht.'' \<rparr>),
       (js ''pt'',
         \<lparr> template =
             [34] @ title request @ [34] @ js '' por '' @ join (authors request) (js '', '')
             @ js '' '' @ [233] @ js '' uma obra de ''
             @ first_or translatedCategories (js ''import'' @ [226] @ js ''ncia'')
             @ js '' publicada em '' @ publishedDate request @ js ''. ''
             @ (if 0 < pageCount request then js ''Este livro de '' @ int_toString (pageCount request) @ js '' p'' @ [225] @ js ''ginas'' else js ''Este livro'')
             @ js '' oferece perspectivas sobre ''
             @ toLowerCase rt (join translatedCategories (js '', '')) @ js ''.'',
           fallback =
             [34] @ title request @ [34] @ js '' '' @ [233]
             @ js '' uma obra importante que explora temas fundamentais em seu campo de estudo.'' \<rparr>),
       (js ''it'',
         \<lparr> template =
             [34] @ title request @ [34] @ js '' di '' @ join (authors request) (js '', '')
             @ js '' '' @ [232] @ js '' un'' @ [39] @ js ''opera di ''
             @ int_toString (pageCount request) @ js '' pubblicata nel ''
             @ publishedDate request @ js ''. ''
             @ (if 0 < pageCount request then js ''Questo libro di '' @ int_toString (pageCount request) @ js '' pagine'' else js ''Questo libro'')
             @ js '' offre prospettive su ''
             @ toLowerCase rt (join translatedCategories (js '', '')) @ js ''.'',
           fallback =
             [34] @ title request @ [34] @ js '' '' @ [232] @ js '' un'' @ [39]
             @ js ''opera importante che esplora temi fondamentali nel suo campo di studio.'' \<rparr>) ]"

text \<open>The \<open>languageMap\<close> of \<open>generateFallbackDetailedSummary\<close>.\<close>

definition languageMap_detailed ::
  "js_runtime \<Rightarrow> SummaryRequest \<Rightarrow> jsstring list \<Rightarrow> (jsstring \<times> template_pair) list" where
  "languageMap_detailed rt request translatedCategories =
     [ (js ''es'',
         \<lparr> template =
             [34] @ title request @ [34] @ js '' de '' @ join (authors request) (js '', '')
             @ js '' ('' @ publisher request @ js '', '' @ publishedDate request
             @ js '') es una obra de '' @ int_toString (pageCount request) @ js '' p''
             @ [225] @ js ''ginas en '' @ join translatedCategories (js '', '') @ js ''. ''
             @ (if language request \<noteq> targetLanguage request then js ''Esta obra explora temas importantes relacionados con la evoluci'' @ [243] @ js ''n humana y la historia.'' else (if description request \<noteq> [] then substring0 (description request) 400 else js ''Esta obra explora temas importantes en su campo.''))
             @ js '' El libro ofrece una perspectiva integral sobre los conceptos fundamentales y proporciona a los lectores herramientas valiosas para comprender mejor el tema. Los autores presentan an''
             @ [225] @ js ''lisis detallados y metodolog'' @ [237] @ js ''as pr'' @ [225]
             @ js ''cticas que resultan esenciales para profundizar en este campo de estudio.'',
           fallback =
             [34] @ title request @ [34]
             @ js '' es una obra fundamental que aborda aspectos esenciales de ''
             @ first_or translatedCategories (js ''su campo'') @ js ''. A trav'' @ [233]
             @ js ''s de un an'' @ [225]
             @ js ''lisis detallado, los autores presentan conceptos clave y metodolog''
             @ [237] @ js ''as importantes. Esta publicaci'' @ [243]
             @ js ''n ofrece perspectivas valiosas para lectores interesados en profundizar su comprensi''
             @ [243] @ js ''n del tema, proporcionando herramientas pr'' @ [225]
             @ js ''cticas y enfoques innovadores que contribuyen significativamente al desarrollo del conocimiento en esta ''
             @ [225] @ js ''rea de estudio.'' \<rparr>),
       (js ''en'',
         \<lparr> template =
             [34] @ title request @ [34] @ js '' by '' @ join (authors request) (js '', '')
             @ js '' ('' @ publisher request @ js '', '' @ publishedDate request
             @ js '') is a '' @ int_toString (pageCount request) @ js ''-page work in ''
             @ join translatedCategories (js '', '') @ js ''. ''
             @ (if description request \<noteq> [] then substring0 (description request) 400 else js ''This work explores important themes in its field.'')
             @ js '' The book offers a comprehensive perspective on fundamental concepts and provides readers with valuable tools for better understanding the subject. The authors present detailed analysis and practical methodologies that are essential for deepening knowledge in this field of study.'',
           fallback =
             [34] @ title request @ [34]
             @ js '' is a fundamental work that addresses essential aspects of ''
             @ first_or translatedCategories (js ''its field'')
             @ js ''. Through detailed analysis, the authors present key concepts and important methodologies. This publication offers valuable perspectives for readers interested in deepening their understanding of the subject, providing practical tools and innovative approaches that contribute significantly to the development of knowledge in this area of study.'' \<rparr>),
       (js ''fr'',
         \<lparr> template =
             [34] @ title request @ [34] @ js '' par '' @ join (authors request) (js '', '')
             @ js '' ('' @ publisher request @ js '', '' @ publishedDate request
             @ js '') est une '' @ [339] @ js ''uvre de ''
             @ int_toString (pageCount request) @ js '' pages en ''
             @ join translatedCategories (js '', '') @ js ''. ''
             @ (if description request \<noteq> [] then substring0 (description request) 400 else js ''Cette '' @ [339] @ js ''uvre explore des th'' @ [232] @ js ''mes importants dans son domaine.'')
             @ js '' Le livre offre une perspective compl'' @ [232]
             @ js ''te sur les concepts fondamentaux et fournit aux lecteurs des outils pr''
             @ [233] @ js ''cieux pour mieux comprendre le sujet. Les auteurs pr'' @ [233]
             @ js ''sentent une analyse d'' @ [233] @ js ''taill'' @ [233]
             @ js ''e et des m'' @ [233]
             @ js ''thodologies pratiques essentielles pour approfondir les connaissances dans ce domaine d''
             @ [39, 233] @ js ''tude.'',
           fallback =
             [34] @ title request @ [34] @ js '' est une '' @ [339]
             @ js ''uvre fondamentale qui aborde les aspects essentiels de ''
             @ first_or translatedCategories (js ''son domaine'') @ js ''. '' @ [192]
             @ js '' travers une analyse d'' @ [233] @ js ''taill'' @ [233]
             @ js ''e, les auteurs pr'' @ [233] @ js ''sentent des concepts cl'' @ [233]
             @ js ''s et des m'' @ [233]
             @ js ''thodologies importantes. Cette publication offre des perspectives pr''
             @ [233] @ js ''cieuses pour les lecteurs int'' @ [233] @ js ''ress'' @ [233]
             @ js ''s '' @ [224] @ js '' approfondir leur compr'' @ [233]
             @ js ''hension du sujet, fournissant des outils pratiques et des approches innovantes qui contribuent significativement au d''
             @ [233] @ js ''veloppement des connaissances dans ce domaine d'' @ [39, 233]
             @ js ''tude.'' \<rparr>),
       (js ''de'',
         \<lparr> template =
             [34] @ title request @ [34] @ js '' von '' @ join (authors request) (js '', '')
             @ js '' ('' @ publisher request @ js '', '' @ publishedDate request
             @ js '') ist ein '' @ int_toString (pageCount request)
             @ js ''-seitiges Werk im Bereich '' @ join translatedCategories (js '', '')
             @ js ''. ''
             @ (if language request \<noteq> targetLanguage request then js ''Dieses Werk erforscht wichtige Themen im Zusammenhang mit existenziellen und spirituellen Fragen.'' else (if description request \<noteq> [] then substring0 (description request) 400 else js ''Dieses Werk erforscht wichtige Themen in seinem Fachgebiet.''))
             @ js '' Das Buch bietet eine umfassende Perspektive auf grundlegende Konzepte und stellt den Lesern wertvolle Werkzeuge f''
             @ [252] @ js ''r ein besseres Verst'' @ [228]
             @ js ''ndnis des Themas zur Verf'' @ [252] @ js ''gung. Die Autoren pr''
             @ [228]
             @ js ''sentieren detaillierte Analysen und praktische Methodologien, die f''
             @ [252]
             @ js ''r die Vertiefung des Wissens in diesem Studienbereich wesentlich sind.'',
           fallback =
             [34] @ title request @ [34]
             @ js '' ist ein grundlegendes Werk, das wesentliche Aspekte von ''
             @ first_or translatedCategories (js ''seinem Fachgebiet'')
             @ js '' behandelt. Durch detaillierte Analyse pr'' @ [228]
             @ js ''sentieren die Autoren Schl'' @ [252]
             @ js ''sselkonzepte und wichtige Methodologien. Diese Ver'' @ [246]
             @ js ''ffentlichung bietet wertvolle Perspektiven f'' @ [252]
             @ js ''r Leser, die ihr Verst'' @ [228] @ js ''ndnis des Themas vertiefen m''
             @ [246] @ js ''chten, und stellt praktische Werkzeuge und innovative Ans''
             @ [228]
             @ js ''tze bereit, die erheblich zur Entwicklung des Wissens in diesem Studienbereich beitragen.'' \<rparr>),
       (js ''pt'',
         \<lparr> template =
             [34] @ title request @ [34] @ js '' por '' @ join (authors request) (js '', '')
             @ js '' ('' @ publisher request @ js '', '' @ publishedDate request @ js '') ''
             @ [233] @ js '' uma obra de '' @ int_toString (pageCount request) @ js '' p''
             @ [225] @ js ''ginas em '' @ join translatedCategories (js '', '') @ js ''. ''
             @ (if language request \<noteq> targetLanguage request then js ''Esta obra explora temas importantes relacionados com a evolu'' @ [231, 227] @ js ''o humana e a hist'' @ [243] @ js ''ria.'' else (if description request \<noteq> [] then substring0 (description request) 400 else js ''Esta obra explora temas importantes em seu campo.''))
             @ js '' O livro oferece uma perspectiva abrangente sobre conceitos fundamentais e fornece aos leitores ferramentas valiosas para melhor compreender o assunto. Os autores apresentam an''
             @ [225] @ js ''lises detalhadas e metodologias pr'' @ [225]
             @ js ''ticas essenciais para aprofundar o conhecimento neste campo de estudo.'',
           fallback =
             [34] @ title request @ [34] @ js '' '' @ [233]
             @ js '' uma obra fundamental que aborda aspectos essenciais de ''
             @ first_or translatedCategories (js ''seu campo'') @ js ''. Atrav'' @ [233]
             @ js ''s de an'' @ [225]
             @ js ''lise detalhada, os autores apresentam conceitos-chave e metodologias importantes. Esta publica''
             @ [231, 227]
             @ js ''o oferece perspectivas valiosas para leitores interessados em aprofundar sua compreens''
             @ [227] @ js ''o do assunto, fornecendo ferramentas pr'' @ [225]
             @ js ''ticas e abordagens inovadoras que contribuem significativamente para o desenvolvimento do conhecimento nesta ''
             @ [225] @ js ''rea de estudo.'' \<rparr>),
       (js ''it'',
         \<lparr> template =
             [34] @ title request @ [34] @ js '' di '' @ join (authors request) (js '', '')
             @ js '' ('' @ publisher request @ js '', '' @ publishedDate request @ js '') ''
             @ [232] @ js '' un'' @ [39] @ js ''opera di ''
             @ int_toString (pageCount request) @ js '' pagine nel campo di ''
             @ join translatedCategories (js '', '') @ js ''. ''
             @ (if language request \<noteq> targetLanguage request then js ''Quest'' @ [39] @ js ''opera esplora temi importanti legati all'' @ [39] @ js ''evoluzione umana e alla storia.'' else (if description request \<noteq> [] then substring0 (description request) 400 else js ''Quest'' @ [39] @ js ''opera esplora temi importanti nel suo campo.''))
             @ js '' Il libro offre una prospettiva completa sui concetti fondamentali e fornisce ai lettori strumenti preziosi per comprendere meglio l''
             @ [39]
             @ js ''argomento. Gli autori presentano analisi dettagliate e metodologie pratiche essenziali per approfondire la conoscenza in questo campo di studio.'',
           fallback =
             [34] @ title request @ [34] @ js '' '' @ [232] @ js '' un'' @ [39]
             @ js ''opera fondamentale che affronta aspetti essenziali di ''
             @ first_or translatedCategories (js ''suo campo'') @ js ''. Attraverso un''
             @ [39]
             @ js ''analisi dettagliata, gli autori presentano concetti chiave e metodologie importanti. Questa pubblicazione offre prospettive preziose per i lettori interessati ad approfondire la loro comprensione dell''
             @ [39]
             @ js ''argomento, fornendo strumenti pratici e approcci innovativi che contribuiscono significativamente allo sviluppo della conoscenza in quest''
             @ [39] @ js ''area di studio.'' \<rparr>) ]"

text \<open>\<^verbatim>\<open>const lang = languageMap[request.targetLanguage] || languageMap['en'];\<close>\<close>

definition selectLanguage :: "(jsstring \<times> template_pair) list \<Rightarrow> jsstring \<Rightarrow> template_pair" where
  "selectLanguage languageMap targetLang =
     (case map_of languageMap targetLang of
        Some lang \<Rightarrow> lang
      | None \<Rightarrow>
          (case map_of languageMap (js ''en'') of
             Some lang \<Rightarrow> lang
           | None \<Rightarrow> \<lparr> template = [], fallback = [] \<rparr>))"

text \<open>
  \<^verbatim>\<open>
  const translatedCategories = request.categories.map(cat =>
      translateCategory(cat, request.targetLanguage));
  ...
  const lang = languageMap[request.targetLanguage] || languageMap['en'];
  const summary = lang.template.length <= 300 ? lang.template : lang.fallback;
  return ensureCharacterLimit(cleanMixedLanguageText(summary, request.targetLanguage), 300);
  \<close>
\<close>

definition generateFallbackShortSummary :: "js_runtime \<Rightarrow> SummaryRequest \<Rightarrow> jsstring" where
  "generateFallbackShortSummary rt request =
     (let translatedCategories =
            map (\<lambda>cat. translateCategory rt cat (targetLanguage request)) (categories request);
          lang = selectLanguage (languageMap_short rt request translatedCategories)
                   (targetLanguage request);
          summary = (if length (template lang) \<le> 300 then template lang else fallback lang)
      in ensureCharacterLimit (cleanMixedLanguageText summary (targetLanguage request)) 300)"

definition generateFallbackDetailedSummary :: "js_runtime \<Rightarrow> SummaryRequest \<Rightarrow> jsstring" where
  "generateFallbackDetailedSummary rt request =
     (let translatedCategories =
            map (\<lambda>cat. translateCategory rt cat (targetLanguage request)) (categories request);
          lang = selectLanguage (languageMap_detailed rt request translatedCategories)
                   (targetLanguage request);
          summary = (if length (template lang) \<le> 1000 then template lang else fallback lang)
      in ensureCharacterLimit (cleanMixedLanguageText summary (targetLanguage request)) 1000)"

section \<open>Source attribution of the cloud function\<close>

datatype processing_method = openai_api | fallback_template

record DataQualityFactors =
  dq_descriptionLength :: rat
  dq_metadataCompleteness :: rat
  dq_publisherReliability :: rat
  dq_authorCredibility :: rat

record SourceReliabilityFactors =
  primarySourcesCount :: rat
  averageSourceReliability :: rat
  sourceConsistency :: rat
  verifiableInformation :: rat

record ContentCoverageFactors =
  cc_topicCoverage :: rat
  cc_thematicDepth :: rat
  cc_conceptualClarity :: rat
  structuralCompleteness :: rat

record CrossValidationFactors =
  cv_multiSourceVerification :: rat
  cv_factualConsistency :: rat
  cv_contextualRelevance :: rat
  cv_logicalCoherence :: rat

text \<open>A group \<open>{score, factors}\<close> of \<open>DetailedConfidenceFactors\<close>.\<close>

record 'f score_group =
  score :: rat
  group_factors :: 'f

record DetailedConfidenceFactors =
  dcf_dataQuality :: "DataQualityFactors score_group"
  dcf_sourceReliability :: "SourceReliabilityFactors score_group"
  dcf_contentCoverage :: "ContentCoverageFactors score_group"
  dcf_aiProcessing :: "AiProcessingFactors score_group"
  dcf_crossValidation :: "CrossValidationFactors score_group"

record EnhancedData =
  ed_sourceAttribution :: "SourceAttribution list"
  ed_detailedConfidenceFactors :: DetailedConfidenceFactors
  ed_processingMethod :: processing_method
  ed_translationApplied :: bool

text \<open>
  \<open>generateCloudFunctionSourceAttribution(request, usesFallback)\<close>.  Here
  \<open>translationApplied\<close> is not an argument but
  \<^verbatim>\<open>request.language !== request.targetLanguage\<close>.
\<close>

definition generateCloudFunctionSourceAttribution ::
  "SummaryRequest \<Rightarrow> bool \<Rightarrow> EnhancedData" where
  "generateCloudFunctionSourceAttribution request usesFallback =
     (let translated = (language request \<noteq> targetLanguage request);
          attribution =
            [ \<lparr> sa_type = book_description_src,
                content = substring0 (description request) 200 @ js ''...'',
                reliability = (if 100 < length (description request) then 90 else 60),
                relevance = 95,
                sa_length = of_nat (length (description request)),
                source = js ''Google Books API'',
                weight = 4 / 10 \<rparr>,
              \<lparr> sa_type = metadata_src,
                content = title request @ js '' by '' @ join (authors request) (js '', '')
                          @ js '' ('' @ publisher request @ js '', ''
                          @ publishedDate request @ js '')'',
                reliability = 95,
                relevance = 85,
                sa_length = of_nat (length (title request)
                              + length (join (authors request) (js '', ''))),
                source = js ''Google Books API'',
                weight = 25 / 100 \<rparr>,
              \<lparr> sa_type = category_data_src,
                content = join (categories request) (js '', ''),
                reliability = (if 0 < length (categories request) then 85 else 40),
                relevance = 80,
                sa_length = of_nat (length (join (categories request) (js '', ''))),
                source = js ''Google Books API'',
                weight = 15 / 100 \<rparr>,
              \<lparr> sa_type = (if usesFallback then fallback_template_src else ai_knowledge_src),
                content = (if usesFallback then js ''SmartLibroAI language-specific template''
                           else js ''OpenAI GPT-3.5 knowledge base''),
                reliability = (if usesFallback then 85 else 90),
                relevance = 75,
                sa_length = 0,
                source = (if usesFallback then js ''SmartLibroAI'' else js ''OpenAI GPT-3.5''),
                weight = 2 / 10 \<rparr> ]
      in \<lparr> ed_sourceAttribution = attribution,
           ed_detailedConfidenceFactors =
             \<lparr> dcf_dataQuality =
                 \<lparr> score = 85,
                   group_factors =
                     \<lparr> dq_descriptionLength = of_nat (length (description request)),
                       dq_metadataCompleteness = 90,
                       dq_publisherReliability = 80,
                       dq_authorCredibility = 75 \<rparr> \<rparr>,
               dcf_sourceReliability =
                 \<lparr> score = (if usesFallback then 82 else 88),
                   group_factors =
                     \<lparr> primarySourcesCount = of_nat (length attribution),
                       averageSourceReliability = (if usesFallback then 80 else 85),
                       sourceConsistency = (if usesFallback then 95 else 90),
                       verifiableInformation = 85 \<rparr> \<rparr>,
               dcf_contentCoverage =
                 \<lparr> score = (if usesFallback then 78 else 82),
                   group_factors =
                     \<lparr> cc_topicCoverage = (if usesFallback then 75 else 85),
                       cc_thematicDepth = (if usesFallback then 75 else 80),
                       cc_conceptualClarity = (if usesFallback then 85 else 85),
                       structuralCompleteness = (if usesFallback then 80 else 80) \<rparr> \<rparr>,
               dcf_aiProcessing =
                 \<lparr> score = (if translated then 75 else (if usesFallback then 88 else 90)),
                   group_factors =
                     \<lparr> languageConsistency =
                         (if translated then 75 else (if usesFallback then 95 else 95)),
                       translationQuality = (if translated then 80 else 100),
                       summarizationAccuracy = (if usesFallback then 80 else 85),
                       responseCoherence = (if usesFallback then 90 else 90) \<rparr> \<rparr>,
               dcf_crossValidation =
                 \<lparr> score = 85,
                   group_factors =
                     \<lparr> cv_multiSourceVerification = 80,
                       cv_factualConsistency = (if usesFallback then 90 else 85),
                       cv_contextualRelevance = 90,
                       cv_logicalCoherence = (if usesFallback then 90 else 85) \<rparr> \<rparr> \<rparr>,
           ed_processingMethod = (if usesFallback then fallback_template else openai_api),
           ed_translationApplied = translated \<rparr>)"

section \<open>SummaryInvoker: the request handler \<open>generateBookSummary\<close> (cloud function)\<close>

record AIBookSummary =
  shortSummary :: jsstring
  detailedSummary :: jsstring
  confidenceScore :: rat
  reasoningFactors :: "jsstring list"
  sourcesUsed :: "jsstring list"
  sourceAttribution :: "SourceAttribution list"
  detailedConfidenceFactors :: DetailedConfidenceFactors
  summaryLanguage :: jsstring
  generatedAt :: nat
  processingMethod :: processing_method
  translationApplied :: bool

text \<open>
  The JSON bodies the handler sends: \<open>{success: true, data}\<close>,
  \<open>{success: true, data, fallback: true, translated}\<close>, \<open>{success: false, error}\<close>,
  \<open>{error}\<close> and \<open>{error, suggestion}\<close>.
\<close>

datatype response_body =
  SuccessBody AIBookSummary
  | FallbackBody AIBookSummary bool
  | FailureBody jsstring
  | ErrorBody jsstring
  | ErrorSuggestionBody jsstring jsstring

record http_response =
  statusCode :: nat
  responseBody :: response_body

text \<open>What the handler reads of the request: the two places the client address is
  taken from, the method, and the body (absent, or a summary request whose \<open>title\<close>
  and \<open>isbn\<close> may be empty).\<close>

record http_request =
  x_forwarded_for :: "jsstring option"
  remoteAddress :: "jsstring option"
  httpMethod :: jsstring
  requestBody :: "SummaryRequest option"

text \<open>What the handler takes from its environment while it serves one request: the
  runtime, the configured API key, the outcome of each call of the external service,
  and the readings of the clock.\<close>

record handler_env =
  runtime :: js_runtime
  apiKey :: jsstring
  openai_create :: "nat \<Rightarrow> outcome"
  rateCheckNow :: nat
  globalCheckNow :: js_date
  generatedAtNow :: nat

text \<open>\<^verbatim>\<open>req.headers["x-forwarded-for"]?.split(",")[0] || req.connection?.remoteAddress
  || "unknown"\<close>\<close>

definition getClientIp :: "http_request \<Rightarrow> jsstring" where
  "getClientIp req =
     (let forwarded = (case x_forwarded_for req of
                         None \<Rightarrow> []
                       | Some h \<Rightarrow> takeWhile (\<lambda>c. c \<noteq> 44) h);
          remote = (case remoteAddress req of None \<Rightarrow> [] | Some a \<Rightarrow> a)
      in if forwarded \<noteq> [] then forwarded
         else if remote \<noteq> [] then remote
         else js ''unknown'')"

text \<open>The tests of the \<open>catch\<close> block:
  \<^verbatim>\<open>
  const isRateLimit = error.status === 429 || error.message?.includes('429') ||
      error.message?.includes('rate limit');
  const isQuotaExceeded = error.message?.includes('insufficient_quota') ||
      error.message?.includes('quota');
  \<close>\<close>

definition isRateLimit_handler :: "api_error \<Rightarrow> bool" where
  "isRateLimit_handler e =
     (status e = Some 429 \<or> message_includes e (js ''429'')
      \<or> message_includes e (js ''rate limit''))"

definition isQuotaExceeded :: "api_error \<Rightarrow> bool" where
  "isQuotaExceeded e =
     (message_includes e (js ''insufficient_quota'') \<or> message_includes e (js ''quota''))"

text \<open>An \<open>Error\<close> made with \<open>new Error(message)\<close> has no \<open>status\<close>.\<close>

definition new_Error :: "jsstring \<Rightarrow> api_error" where
  "new_Error m = \<lparr> status = None, message = Some m \<rparr>"

text \<open>The summary of the success path (source lines 359 to 380).
  \<open>parsedResponse.confidenceScore || 75\<close> takes 75 for a missing score and for 0.\<close>

definition aiSummary_of :: "handler_env \<Rightarrow> SummaryRequest \<Rightarrow> parsed_response \<Rightarrow> AIBookSummary" where
  "aiSummary_of env summaryRequest parsedResponse =
     (let enhancedData = generateCloudFunctionSourceAttribution summaryRequest False
      in \<lparr> shortSummary =
             ensureCharacterLimit
               (case pr_shortSummary parsedResponse of None \<Rightarrow> [] | Some s \<Rightarrow> s) 300,
           detailedSummary =
             ensureCharacterLimit
               (case pr_detailedSummary parsedResponse of None \<Rightarrow> [] | Some s \<Rightarrow> s) 1000,
           confidenceScore =
             min 100
               (max 0
                  (case pr_confidenceScore parsedResponse of
                     None \<Rightarrow> 75
                   | Some c \<Rightarrow> if c = 0 then 75 else c)),
           reasoningFactors =
             (case pr_reasoningFactors parsedResponse of None \<Rightarrow> [] | Some fs \<Rightarrow> fs),
           sourcesUsed =
             (case pr_sourcesUsed parsedResponse of
                None \<Rightarrow> [js ''Google Books API'', js ''Book Description'']
              | Some ss \<Rightarrow> ss),
           sourceAttribution = ed_sourceAttribution enhancedData,
           detailedConfidenceFactors = ed_detailedConfidenceFactors enhancedData,
           summaryLanguage = targetLanguage summaryRequest,
           generatedAt = generatedAtNow env,
           processingMethod = ed_processingMethod enhancedData,
           translationApplied = ed_translationApplied enhancedData \<rparr>)"

text \<open>The summary of the fallback path (source lines 402 to 418).\<close>

definition fallbackSummary_of :: "handler_env \<Rightarrow> SummaryRequest \<Rightarrow> AIBookSummary" where
  "fallbackSummary_of env summaryRequest =
     (let fallbackEnhancedData = generateCloudFunctionSourceAttribution summaryRequest True
      in \<lparr> shortSummary = generateFallbackShortSummary (runtime env) summaryRequest,
           detailedSummary = generateFallbackDetailedSummary (runtime env) summaryRequest,
           confidenceScore = 50,
           reasoningFactors =
             (if language summaryRequest \<noteq> targetLanguage summaryRequest
              then [js ''Fallback summary with translation'', js ''Limited by API rate limits'']
              else [js ''Fallback summary due to API rate limits'']),
           sourcesUsed = [js ''Book metadata'', js ''Description''],
           sourceAttribution = ed_sourceAttribution fallbackEnhancedData,
           detailedConfidenceFactors = ed_detailedConfidenceFactors fallbackEnhancedData,
           summaryLanguage = targetLanguage summaryRequest,
           generatedAt = generatedAtNow env,
           processingMethod = ed_processingMethod fallbackEnhancedData,
           translationApplied = ed_translationApplied fallbackEnhancedData \<rparr>)"

text \<open>
  The \<open>try\<close> block (source lines 206 to 383): it sends a response (\<open>Inr\<close>) or throws
  (\<open>Inl\<close>).  The construction of the prompt is left out: the model takes the outcomes
  of the external call as given, whatever the prompt.  With the outcome comes the run
  of the retry loop, when the block got that far.
\<close>

definition no_run :: retry_run where
  "no_run = \<lparr> result = ReturnedUndefined, delays = [], attempts = 0 \<rparr>"

definition tryBlock ::
  "handler_env \<Rightarrow> http_request \<Rightarrow> SummaryRequest \<Rightarrow> (api_error + http_response) \<times> retry_run" where
  "tryBlock env request summaryRequest =
     (if httpMethod request \<noteq> js ''POST''
      then (Inr \<lparr> statusCode = 405, responseBody = ErrorBody (js ''Method not allowed'') \<rparr>,
            no_run)
      else if apiKey env = []
      then (Inr \<lparr> statusCode = 500,
                   responseBody = ErrorBody (js ''AI service not configured'') \<rparr>,
            no_run)
      else
        let run = callOpenAIWithRetry (openai_create env) 3
        in (case result run of
              Thrown e \<Rightarrow> (Inl e, run)
            | ReturnedUndefined \<Rightarrow>
                (Inl (new_Error
                   (js ''Cannot read properties of undefined (reading '' @ [39]
                    @ js ''choices'' @ [39] @ js '')'')), run)
            | Returned completion \<Rightarrow>
                (case choice_content completion of
                   None \<Rightarrow> (Inl (new_Error (js ''No response from OpenAI'')), run)
                 | Some aiResponse \<Rightarrow>
                     if aiResponse = []
                     then (Inl (new_Error (js ''No response from OpenAI'')), run)
                     else
                       (case JSON_parse (runtime env) aiResponse of
                          Inl m \<Rightarrow> (Inl (new_Error m), run)
                        | Inr parsedResponse \<Rightarrow>
                            (Inr \<lparr> statusCode = 200,
                                   responseBody =
                                     SuccessBody
                                       (aiSummary_of env summaryRequest parsedResponse) \<rparr>,
                             run)))))"

text \<open>The \<open>catch\<close> block (source lines 385 to 440).\<close>

definition catchBlock :: "handler_env \<Rightarrow> SummaryRequest \<Rightarrow> api_error \<Rightarrow> http_response" where
  "catchBlock env summaryRequest error =
     (if isRateLimit_handler error
      then \<lparr> statusCode = 200,
             responseBody =
               FallbackBody (fallbackSummary_of env summaryRequest)
                 (language summaryRequest \<noteq> targetLanguage summaryRequest) \<rparr>
      else if isQuotaExceeded error
      then \<lparr> statusCode = 429,
             responseBody =
               ErrorSuggestionBody
                 (js ''OpenAI quota exceeded. Please check your billing.'')
                 (js ''Your OpenAI account may need billing setup or has exceeded monthly limits.'') \<rparr>
      else if message_includes error (js ''API key'')
      then \<lparr> statusCode = 401,
             responseBody = ErrorBody (js ''Authentication failed with AI service'') \<rparr>
      else \<lparr> statusCode = 500,
             responseBody =
               ErrorBody (js ''Failed to generate book summary. Please try again.'') \<rparr>)"

text \<open>\<open>try { ... } catch (error) { ... }\<close>, for a request that passed the checks before
  it.\<close>

definition tryCatch ::
  "handler_env \<Rightarrow> http_request \<Rightarrow> SummaryRequest \<Rightarrow> http_response \<times> retry_run" where
  "tryCatch env request summaryRequest =
     (case tryBlock env request summaryRequest of
        (Inr response, run) \<Rightarrow> (response, run)
      | (Inl error, run) \<Rightarrow> (catchBlock env summaryRequest error, run))"

text \<open>
  The handler (source lines 186 to 441), as the callback given to the CORS
  middleware.  A run yields the response, the database afterwards, and the run of the
  retry loop (no calls when the handler did not get to it).
\<close>

record handler_run =
  response :: http_response
  store :: firestore
  invocation :: retry_run

definition rateLimitRefusal :: http_response where
  "rateLimitRefusal =
     \<lparr> statusCode = 429,
       responseBody = FailureBody (js ''Rate limit exceeded. Please try again later.'') \<rparr>"

definition generateBookSummary :: "handler_env \<Rightarrow> http_request \<Rightarrow> firestore \<Rightarrow> handler_run" where
  "generateBookSummary env request db =
     (let ip = getClientIp request
      in case isRateLimited ip (rateCheckNow env) db of
           (True, db1) \<Rightarrow>
             \<lparr> response = rateLimitRefusal, store = db1, invocation = no_run \<rparr>
         | (False, db1) \<Rightarrow>
             (case isGlobalLimitReached (globalCheckNow env) db1 of
                (True, db2) \<Rightarrow>
                  \<lparr> response =
                      \<lparr> statusCode = 503,
                        responseBody =
                          FailureBody
                            (js ''Service temporarily unavailable: free tier usage limit reached.'') \<rparr>,
                    store = db2, invocation = no_run \<rparr>
              | (False, db2) \<Rightarrow>
                  (case requestBody request of
                     None \<Rightarrow>
                       \<lparr> response =
                           \<lparr> statusCode = 400,
                             responseBody =
                               ErrorBody (js ''Invalid request. Title and ISBN are required.'') \<rparr>,
                         store = db2, invocation = no_run \<rparr>
                   | Some summaryRequest \<Rightarrow>
                       if title summaryRequest = [] \<or> isbn summaryRequest = []
                       then
                         \<lparr> response =
                             \<lparr> statusCode = 400,
                               responseBody =
                                 ErrorBody
                                   (js ''Invalid request. Title and ISBN are required.'') \<rparr>,
                           store = db2, invocation = no_run \<rparr>
                       else
                         (case tryCatch env request summaryRequest of
                            (resp, run) \<Rightarrow>
                              \<lparr> response = resp, store = db2, invocation = run \<rparr>))))"

section \<open>Notions used to state the properties of the handler\<close>

text \<open>The request gets as far as the external call with the summary request \<open>r\<close>: it
  passes the hourly and the monthly check, its body is \<open>r\<close> with a title and an ISBN,
  its method is POST and an API key is configured.\<close>

definition reachesInvocation ::
  "handler_env \<Rightarrow> http_request \<Rightarrow> firestore \<Rightarrow> SummaryRequest \<Rightarrow> bool" where
  "reachesInvocation env request db r =
     (fst (isRateLimited (getClientIp request) (rateCheckNow env) db) = False
      \<and> fst (isGlobalLimitReached (globalCheckNow env)
               (snd (isRateLimited (getClientIp request) (rateCheckNow env) db))) = False
      \<and> requestBody request = Some r
      \<and> title r \<noteq> [] \<and> isbn r \<noteq> []
      \<and> httpMethod request = js ''POST''
      \<and> apiKey env \<noteq> [])"




text \<open>The error that reaches the \<open>catch\<close> block, if the \<open>try\<close> block throws.\<close>

definition caughtError :: "handler_env \<Rightarrow> http_request \<Rightarrow> SummaryRequest \<Rightarrow> api_error option" where
  "caughtError env request r =
     (case fst (tryBlock env request r) of Inl e \<Rightarrow> Some e | Inr resp \<Rightarrow> None)"


text \<open>The value of the hourly counter of a client in the window of \<open>now\<close>; a missing
  document counts as 0.\<close>

definition hourlyCount :: "firestore \<Rightarrow> jsstring \<Rightarrow> nat \<Rightarrow> int" where
  "hourlyCount db ip now =
     (case rateLimits db (rateLimitDocId ip now) of None \<Rightarrow> 0 | Some d \<Rightarrow> count d)"

text \<open>Requests served one after the other: the responses, in order, and the database
  afterwards.\<close>

fun serve ::
  "(handler_env \<times> http_request) list \<Rightarrow> firestore \<Rightarrow> http_response list \<times> firestore" where
  "serve [] db = ([], db)"
| "serve ((env, request) # rest) db =
     (let run = generateBookSummary env request db;
          later = serve rest (store run)
      in (response run # fst later, snd later))"

text \<open>Every request of the list comes from the client \<open>ip\<close>, in the hour window that
  starts at \<open>h\<close>.\<close>

definition fromClientInWindow ::
  "jsstring \<Rightarrow> nat \<Rightarrow> (handler_env \<times> http_request) list \<Rightarrow> bool" where
  "fromClientInWindow ip h reqs =
     list_all (\<lambda>(env, request). getClientIp request = ip \<and> hourStart (rateCheckNow env) = h)
       reqs"

text \<open>Summaries are sent by the success path and by the fallback path only.\<close>

definition summaryWithinLimits :: "http_response \<Rightarrow> bool" where
  "summaryWithinLimits resp =
     (case responseBody resp of
        SuccessBody s \<Rightarrow> length (shortSummary s) \<le> 300 \<and> length (detailedSummary s) \<le> 1000
      | FallbackBody s t \<Rightarrow> length (shortSummary s) \<le> 300 \<and> length (detailedSummary s) \<le> 1000
      | FailureBody m \<Rightarrow> True
      | ErrorBody m \<Rightarrow> True
      | ErrorSuggestionBody m g \<Rightarrow> True)"

text \<open>The number that a string of decimal digits denotes.\<close>

definition digits_value :: "jsstring \<Rightarrow> nat" where
  "digits_value ds = foldl (\<lambda>a d. 10 * a + (d - 48)) 0 ds"

text \<open>The state of the collection \<open>rateLimits\<close> in which one document, with the id
  \<open>docId\<close>, has counted \<open>c\<close> requests of the window that starts at \<open>h\<close>; no document
  yet when \<open>c = 0\<close>.\<close>

definition windowCounter :: "jsstring \<Rightarrow> nat \<Rightarrow> nat \<Rightarrow> (jsstring \<rightharpoonup> counter_doc)" where
  "windowCounter docId h c =
     (if c = 0 then Map.empty
      else Map.empty(docId \<mapsto> \<lparr> count = int c, timestamp = h \<rparr>))"

section \<open>LanguageGuard of the client: \<open>validateAndCleanSummaryLanguage\<close>\<close>










section \<open>Concrete inputs\<close>

text \<open>A runtime whose \<open>toLowerCase\<close> folds the ASCII letters (as the runtime's does on
  ASCII text) and whose \<open>JSON.parse\<close> rejects every text.\<close>

definition ascii_toLowerCase :: "jsstring \<Rightarrow> jsstring" where
  "ascii_toLowerCase s = map (\<lambda>c. if 65 \<le> c \<and> c \<le> 90 then c + 32 else c) s"

definition example_runtime :: js_runtime where
  "example_runtime =
     \<lparr> toLowerCase = ascii_toLowerCase,
       JSON_parse = (\<lambda>s. Inl (js ''Unexpected token in JSON'')) \<rparr>"

text \<open>The request of the scenario in the specification.\<close>

definition nexus_request :: SummaryRequest where
  "nexus_request =
     \<lparr> title = js ''Nexus'',
       authors = [js ''Yuval Noah Harari''],
       isbn = js ''9780525520024'',
       description = js ''A brief history of information networks.'',
       categories = [js ''History''],
       publisher = js ''Random House'',
       publishedDate = js ''2024-09-10'',
       pageCount = 528,
       language = js ''en'',
       targetLanguage = js ''es'' \<rparr>"

definition example_request :: http_request where
  "example_request =
     \<lparr> x_forwarded_for = Some (js ''203.0.113.7, 10.0.0.1''),
       remoteAddress = None,
       httpMethod = js ''POST'',
       requestBody = Some nexus_request \<rparr>"

text \<open>An environment around a given behaviour of the external service.\<close>

definition example_env :: "(nat \<Rightarrow> outcome) \<Rightarrow> handler_env" where
  "example_env svc =
     \<lparr> runtime = example_runtime,
       apiKey = js ''sk-test'',
       openai_create = svc,
       rateCheckNow = 1730541723000,
       globalCheckNow = \<lparr> getTime = 1730541723050, getFullYear = 2024, getMonth = 10 \<rparr>,
       generatedAtNow = 1730541725000 \<rparr>"



definition error_auth :: api_error where
  "error_auth = \<lparr> status = Some 401, message = Some (js ''Incorrect API key'') \<rparr>"

text \<open>The same environment one hour later, and a database in which the client of
  \<open>example_request\<close> has used up the ten requests of the current hour.\<close>

definition later_env :: "(nat \<Rightarrow> outcome) \<Rightarrow> handler_env" where
  "later_env svc = (example_env svc)\<lparr> rateCheckNow := 1730545323000 \<rparr>"

definition capped_firestore :: firestore where
  "capped_firestore =
     empty_firestore
       \<lparr> rateLimits :=
           Map.empty(rateLimitDocId (js ''203.0.113.7'') 1730541723000
                       \<mapsto> \<lparr> count = 10, timestamp = 1730541600000 \<rparr>) \<rparr>"

text \<open>A service that is rate-limited twice and then answers, and an environment in
  which the answer parses to texts longer than the limits.\<close>

definition recovering_service :: "nat \<Rightarrow> outcome" where
  "recovering_service k =
     (if k < 2 then Rejected error_429 else Resolved \<lparr> choice_content = Some (js ''{}'') \<rparr>)"

definition long_response :: parsed_response where
  "long_response =
     \<lparr> pr_shortSummary = Some (replicate 400 97),
       pr_detailedSummary = Some (replicate 1200 97),
       pr_confidenceScore = Some 85,
       pr_reasoningFactors = None,
       pr_sourcesUsed = None \<rparr>"

definition verbose_env :: handler_env where
  "verbose_env =
     (example_env recovering_service)
       \<lparr> runtime := \<lparr> toLowerCase = ascii_toLowerCase, JSON_parse = (\<lambda>s. Inr long_response) \<rparr> \<rparr>"

text \<open>Services that answer every call in the same way.\<close>

definition always_429 :: "nat \<Rightarrow> outcome" where
  "always_429 = (\<lambda>k. Rejected error_429)"



definition always_auth :: "nat \<Rightarrow> outcome" where
  "always_auth = (\<lambda>k. Rejected error_auth)"


section \<open>Properties of the truncator\<close>

lemma length_js [simp]: "length (js s) = length s"
  by (simp add: js_def)

lemma lastIndexOf_lower: "- 1 \<le> lastIndexOf s c"
  by (induction s) (auto simp: Let_def)

lemma lastIndexOf_upper: "lastIndexOf s c < int (length s)"
  by (induction s) (auto simp: Let_def)

lemma lastIndexOf_Nil_eq [simp]: "lastIndexOf [] c = - 1"
  by simp

lemma length_substring0_le: "length (substring0 s e) \<le> length s"
  by (simp add: substring0_def)

lemma length_substring0_le_end: "0 \<le> e \<Longrightarrow> int (length (substring0 s e)) \<le> e"
  by (simp add: substring0_def)

lemma ensureCharacterLimit_short:
  "int (length s) \<le> L \<Longrightarrow> ensureCharacterLimit s L = s"
  by (simp add: ensureCharacterLimit_def)

lemma ensureCharacterLimit_bound:
  assumes "3 \<le> L"
  shows "int (length (ensureCharacterLimit s L)) \<le> L"
proof (cases "s = [] \<or> int (length s) \<le> L")
  case True
  then show ?thesis
    using assms by (auto simp: ensureCharacterLimit_def)
next
  case False
  define trimmed where "trimmed = substring0 s (L - 3)"
  have t: "int (length trimmed) \<le> L - 3"
    unfolding trimmed_def using assms by (intro length_substring0_le_end) simp
  have cut: "int (length (substring0 trimmed e)) \<le> L - 3" for e
    using length_substring0_le [of trimmed e] t by linarith
  from False t cut [of "lastIndexOf trimmed SPACE"] show ?thesis
    by (simp add: ensureCharacterLimit_def Let_def trimmed_def [symmetric])
qed

lemma ensureCharacterLimit_small_limit:
  assumes "L < 3" and "s \<noteq> []" and "\<not> int (length s) \<le> L"
  shows "ensureCharacterLimit s L = js ''...''"
  using assms by (simp add: ensureCharacterLimit_def substring0_def Let_def)

lemma ensureCharacterLimit_idem:
  "ensureCharacterLimit (ensureCharacterLimit s L) L = ensureCharacterLimit s L"
proof (cases "s = [] \<or> int (length s) \<le> L")
  case True
  then show ?thesis
    by (auto simp: ensureCharacterLimit_def)
next
  case long: False
  show ?thesis
  proof (cases "3 \<le> L")
    case True
    then show ?thesis
      by (simp add: ensureCharacterLimit_bound ensureCharacterLimit_short)
  next
    case False
    then have small: "L < 3" by simp
    with long have out: "ensureCharacterLimit s L = js ''...''"
      by (simp add: ensureCharacterLimit_small_limit)
    have "js ''...'' \<noteq> []" and "\<not> int (length (js ''...'')) \<le> L"
      using small by (simp_all add: js_def)
    with small have "ensureCharacterLimit (js ''...'') L = js ''...''"
      by (rule ensureCharacterLimit_small_limit)
    with out show ?thesis by simp
  qed
qed

text \<open>
  Claim C8 (as amended).  For every string \<open>s\<close> and every integer limit \<open>L\<close> the
  truncator is idempotent, and it returns its input unchanged whenever the input has
  at most \<open>L\<close> code units.  Its output has at most \<open>L\<close> code units whenever
  \<open>L \<ge> 3\<close>; below that the three-unit ellipsis alone already exceeds the limit.
\<close>

theorem ensureCharacterLimit_idempotent_bounded:
  "ensureCharacterLimit (ensureCharacterLimit s L) L = ensureCharacterLimit s L
   \<and> (int (length s) \<le> L \<longrightarrow> ensureCharacterLimit s L = s)
   \<and> (3 \<le> L \<longrightarrow> int (length (ensureCharacterLimit s L)) \<le> L)"
  by (simp add: ensureCharacterLimit_idem ensureCharacterLimit_short
      ensureCharacterLimit_bound)

text \<open>The amended claim at two inputs: a string that fits its limit, and one that is
  cut at a word boundary inside the last fifth of the window.\<close>

theorem ensureCharacterLimit_idempotent_bounded_witness:
  "int (length (js ''abc'')) \<le> 5 \<and> (3::int) \<le> 5
   \<and> ensureCharacterLimit (js ''abc'') 5 = js ''abc''
   \<and> int (length (ensureCharacterLimit (js ''abc'') 5)) \<le> 5
   \<and> (3::int) \<le> 25
   \<and> ensureCharacterLimit (js ''abcdefghijklmnopqrstu vwxyz'') 25
       = js ''abcdefghijklmnopqrstu...''
   \<and> int (length (ensureCharacterLimit (js ''abcdefghijklmnopqrstu vwxyz'') 25)) \<le> 25
   \<and> ensureCharacterLimit
         (ensureCharacterLimit (js ''abcdefghijklmnopqrstu vwxyz'') 25) 25
       = js ''abcdefghijklmnopqrstu...''"
proof -
  have a: "int (length (js ''abc'')) \<le> 5" and b: "(3::int) \<le> 5" and c: "(3::int) \<le> 25"
    by simp_all
  have cut: "ensureCharacterLimit (js ''abcdefghijklmnopqrstu vwxyz'') 25
      = js ''abcdefghijklmnopqrstu...''"
    by (simp add: ensureCharacterLimit_def substring0_def js_def SPACE_def Let_def)
  from ensureCharacterLimit_idempotent_bounded [of "js ''abc''" 5]
    ensureCharacterLimit_idempotent_bounded [of "js ''abcdefghijklmnopqrstu vwxyz''" 25]
    a b c cut
  show ?thesis by simp
qed

text \<open>
  Claim C8 as stated fails for limits below 3: the three-unit text \<open>abc\<close> does not
  fit the limit 2, the window \<open>substring(0, -1)\<close> is empty, and the result is the
  bare ellipsis, three code units long.
\<close>

theorem ensureCharacterLimit_exceeds_small_limit:
  "ensureCharacterLimit (js ''abc'') 2 = js ''...''
   \<and> \<not> int (length (ensureCharacterLimit (js ''abc'') 2)) \<le> 2"
  by (simp add: ensureCharacterLimit_def substring0_def js_def Let_def)

section \<open>Properties of the confidence scorer\<close>


lemma dataQualityScore_bounds:
  "0 \<le> dataQualityScore b \<and> dataQualityScore b \<le> 100"
  by (simp add: dataQualityScore_def min_def)

lemma sourceReliabilityScore_bounds:
  "41 \<le> sourceReliabilityScore b \<and> sourceReliabilityScore b \<le> 81"
  by (simp add: sourceReliabilityScore_def publisherReliability_def authorCredibility_def
      metadataCompleteness_def split: list.split)

lemma topicCoverage_bounds: "0 \<le> topicCoverage b \<and> topicCoverage b \<le> 100"
  by (simp add: topicCoverage_def min_def)

lemma contentCoverageScore_bounds:
  "30 \<le> contentCoverageScore b \<and> contentCoverageScore b \<le> 91"
  using topicCoverage_bounds [of b]
  by (simp add: contentCoverageScore_def thematicDepth_def conceptualClarity_def min_def)

lemma aiProcessingScore_values:
  "aiProcessingScore False False = 91" "aiProcessingScore True False = 90"
  "aiProcessingScore False True = 85" "aiProcessingScore True True = 84"
  by (simp_all add: aiProcessingScore_def aiProcessingFactors_def)

lemma aiProcessingScore_translation:
  "aiProcessingScore uf True = aiProcessingScore uf False - 6"
  by (cases uf) (simp_all add: aiProcessingScore_values)

lemma aiProcessingScore_bounds:
  "90 \<le> aiProcessingScore uf False \<and> aiProcessingScore uf False \<le> 91"
  by (cases uf) (simp_all add: aiProcessingScore_values)

lemma crossValidationScore_bounds:
  "71 \<le> crossValidationScore b \<and> crossValidationScore b \<le> 86"
  by (simp add: crossValidationScore_def multiSourceVerification_def
      factualConsistency_def contextualRelevance_def logicalCoherence_def)

text \<open>The clamp of the overall score never binds: without translation the weighted
  sum lies between 40 and 90, with translation 10.9 below that.\<close>

lemma overallScore_untranslated:
  "overallScore b uf False
     = dataQualityScore b * (25 / 100) + sourceReliabilityScore b * (25 / 100)
       + contentCoverageScore b * (2 / 10) + aiProcessingScore uf False * (15 / 100)
       + crossValidationScore b * (15 / 100)"
  using dataQualityScore_bounds [of b] sourceReliabilityScore_bounds [of b]
    contentCoverageScore_bounds [of b] aiProcessingScore_bounds [of uf]
    crossValidationScore_bounds [of b]
  by (simp add: overallScore_def translationPenalty_def)

lemma overallScore_untranslated_lower: "40 \<le> overallScore b uf False"
  using dataQualityScore_bounds [of b] sourceReliabilityScore_bounds [of b]
    contentCoverageScore_bounds [of b] aiProcessingScore_bounds [of uf]
    crossValidationScore_bounds [of b]
  by (simp add: overallScore_untranslated)

lemma overallScore_translated:
  "overallScore b uf True = overallScore b uf False - 109 / 10"
proof -
  have arith: "d * (25 / 100) + s * (25 / 100) + c * (2 / 10) + (a - 6) * (15 / 100)
        + v * (15 / 100) - 10
      = d * (25 / 100) + s * (25 / 100) + c * (2 / 10) + a * (15 / 100)
        + v * (15 / 100) - 109 / 10" for d s c a v :: rat
    by (simp add: field_simps)
  have "overallScore b uf True
      = max 0 (min 100 (overallScore b uf False - 109 / 10))"
    unfolding overallScore_def [of b uf True] overallScore_untranslated
      aiProcessingScore_translation [of uf] translationPenalty_def if_True
    by (simp only: arith)
  moreover have "overallScore b uf False \<le> 100"
    using dataQualityScore_bounds [of b] sourceReliabilityScore_bounds [of b]
      contentCoverageScore_bounds [of b] aiProcessingScore_bounds [of uf]
      crossValidationScore_bounds [of b]
    by (simp add: overallScore_untranslated)
  ultimately show ?thesis
    using overallScore_untranslated_lower [of b uf] by simp
qed

lemma Math_round_less: "x + 1 \<le> y \<Longrightarrow> Math_round x < Math_round y"
  unfolding Math_round_def by (simp add: floor_less_cancel) linarith


section \<open>Properties of the retry loop\<close>

declare callOpenAIWithRetry_loop.simps [simp del]

lemma loop_at_2:
  "callOpenAIWithRetry_loop create 3 2 w =
     (case create 2 of
        Resolved c \<Rightarrow> \<lparr> result = Returned c, delays = w, attempts = 3 \<rparr>
      | Rejected e \<Rightarrow> \<lparr> result = Thrown e, delays = w, attempts = 3 \<rparr>)"
  by (subst callOpenAIWithRetry_loop.simps) (simp split: outcome.split)

lemma loop_at_1:
  "callOpenAIWithRetry_loop create 3 1 w =
     (case create 1 of
        Resolved c \<Rightarrow> \<lparr> result = Returned c, delays = w, attempts = 2 \<rparr>
      | Rejected e \<Rightarrow>
          if isRateLimit_retry e
          then callOpenAIWithRetry_loop create 3 2 (w @ [1000])
          else \<lparr> result = Thrown e, delays = w, attempts = 2 \<rparr>)"
  by (subst callOpenAIWithRetry_loop.simps) (simp split: outcome.split add: numeral_2_eq_2)

lemma loop_at_0:
  "callOpenAIWithRetry_loop create 3 0 w =
     (case create 0 of
        Resolved c \<Rightarrow> \<lparr> result = Returned c, delays = w, attempts = 1 \<rparr>
      | Rejected e \<Rightarrow>
          if isRateLimit_retry e
          then callOpenAIWithRetry_loop create 3 1 (w @ [500])
          else \<lparr> result = Thrown e, delays = w, attempts = 1 \<rparr>)"
  by (subst callOpenAIWithRetry_loop.simps) (simp split: outcome.split)

lemma retry_three_unfolded:
  "callOpenAIWithRetry create 3 =
     (case create 0 of
        Resolved c \<Rightarrow> \<lparr> result = Returned c, delays = [], attempts = 1 \<rparr>
      | Rejected e0 \<Rightarrow>
          if isRateLimit_retry e0 then
            (case create 1 of
               Resolved c \<Rightarrow> \<lparr> result = Returned c, delays = [500], attempts = 2 \<rparr>
             | Rejected e1 \<Rightarrow>
                 if isRateLimit_retry e1 then
                   (case create 2 of
                      Resolved c \<Rightarrow>
                        \<lparr> result = Returned c, delays = [500, 1000], attempts = 3 \<rparr>
                    | Rejected e2 \<Rightarrow>
                        \<lparr> result = Thrown e2, delays = [500, 1000], attempts = 3 \<rparr>)
                 else \<lparr> result = Thrown e1, delays = [500], attempts = 2 \<rparr>)
          else \<lparr> result = Thrown e0, delays = [], attempts = 1 \<rparr>)"
  unfolding callOpenAIWithRetry_def loop_at_0 loop_at_1 loop_at_2
  by (cases "create 0"; cases "create 1"; cases "create 2") simp_all




section \<open>Properties of the request handler\<close>

lemma aiSummary_of_lengths:
  "length (shortSummary (aiSummary_of env r p)) \<le> 300
   \<and> length (detailedSummary (aiSummary_of env r p)) \<le> 1000"
  using ensureCharacterLimit_bound [of 300] ensureCharacterLimit_bound [of 1000]
  by (simp add: aiSummary_of_def Let_def)

lemma generateFallbackShortSummary_length:
  "length (generateFallbackShortSummary rt r) \<le> 300"
  using ensureCharacterLimit_bound [of 300]
  by (simp add: generateFallbackShortSummary_def Let_def)

lemma generateFallbackDetailedSummary_length:
  "length (generateFallbackDetailedSummary rt r) \<le> 1000"
  using ensureCharacterLimit_bound [of 1000]
  by (simp add: generateFallbackDetailedSummary_def Let_def)

lemma fallbackSummary_of_fields:
  "shortSummary (fallbackSummary_of env r) = generateFallbackShortSummary (runtime env) r"
  "detailedSummary (fallbackSummary_of env r) = generateFallbackDetailedSummary (runtime env) r"
  "confidenceScore (fallbackSummary_of env r) = 50"
  "processingMethod (fallbackSummary_of env r) = fallback_template"
  "translationApplied (fallbackSummary_of env r) = (language r \<noteq> targetLanguage r)"
  by (simp_all add: fallbackSummary_of_def generateCloudFunctionSourceAttribution_def Let_def)

lemma catchBlock_within: "summaryWithinLimits (catchBlock env r e)"
  by (simp add: catchBlock_def summaryWithinLimits_def fallbackSummary_of_fields
      generateFallbackShortSummary_length generateFallbackDetailedSummary_length)

lemma tryBlock_within:
  "fst (tryBlock env req r) = Inr resp \<Longrightarrow> summaryWithinLimits resp"
  by (auto simp: tryBlock_def summaryWithinLimits_def aiSummary_of_lengths Let_def
      split: if_splits retry_result.splits option.splits sum.splits)

lemma tryCatch_within: "summaryWithinLimits (fst (tryCatch env req r))"
proof (cases "tryBlock env req r")
  case (Pair out run)
  then show ?thesis
    using tryBlock_within [of env req r] catchBlock_within [of env r]
    by (cases out) (simp_all add: tryCatch_def)
qed

text \<open>The handler with its nested case distinctions written as a chain of tests.\<close>

lemma generateBookSummary_unfold:
  "generateBookSummary env req db =
     (let a = isRateLimited (getClientIp req) (rateCheckNow env) db;
          b = isGlobalLimitReached (globalCheckNow env) (snd a)
      in if fst a
         then \<lparr> response = rateLimitRefusal, store = snd a, invocation = no_run \<rparr>
         else if fst b
         then \<lparr> response =
                  \<lparr> statusCode = 503,
                    responseBody =
                      FailureBody
                        (js ''Service temporarily unavailable: free tier usage limit reached.'') \<rparr>,
                store = snd b, invocation = no_run \<rparr>
         else
           (case requestBody req of
              None \<Rightarrow>
                \<lparr> response =
                    \<lparr> statusCode = 400,
                      responseBody =
                        ErrorBody (js ''Invalid request. Title and ISBN are required.'') \<rparr>,
                  store = snd b, invocation = no_run \<rparr>
            | Some r \<Rightarrow>
                if title r = [] \<or> isbn r = []
                then
                  \<lparr> response =
                      \<lparr> statusCode = 400,
                        responseBody =
                          ErrorBody (js ''Invalid request. Title and ISBN are required.'') \<rparr>,
                    store = snd b, invocation = no_run \<rparr>
                else
                  \<lparr> response = fst (tryCatch env req r), store = snd b,
                    invocation = snd (tryCatch env req r) \<rparr>))"
  by (simp add: generateBookSummary_def Let_def split: prod.split bool.split option.split)

lemma generateBookSummary_within:
  "summaryWithinLimits (response (generateBookSummary env req db))"
proof -
  have early: "summaryWithinLimits \<lparr> statusCode = c, responseBody = FailureBody m \<rparr>"
    "summaryWithinLimits \<lparr> statusCode = c, responseBody = ErrorBody m \<rparr>" for c m
    by (simp_all add: summaryWithinLimits_def)
  show ?thesis
    unfolding generateBookSummary_unfold
    by (simp add: Let_def early rateLimitRefusal_def tryCatch_within split: option.split)
qed

text \<open>
  Claim C7.  Every response of the cloud function's handler that carries a summary,
  on the success path (\<open>SuccessBody\<close>) and on the fallback path (\<open>FallbackBody\<close>), has
  a short summary of at most 300 and a detailed summary of at most 1000 code units;
  the other responses carry no summary.
\<close>

theorem generateBookSummary_summary_lengths:
  "(case responseBody (response (generateBookSummary env req db)) of
      SuccessBody s \<Rightarrow> length (shortSummary s) \<le> 300 \<and> length (detailedSummary s) \<le> 1000
    | FallbackBody s t \<Rightarrow>
        length (shortSummary s) \<le> 300 \<and> length (detailedSummary s) \<le> 1000
    | FailureBody m \<Rightarrow> True
    | ErrorBody m \<Rightarrow> True
    | ErrorSuggestionBody m g \<Rightarrow> True)"
  using generateBookSummary_within [of env req db]
  by (simp add: summaryWithinLimits_def)

subsection \<open>The fallback and the classified failures\<close>

lemma reaches_generateBookSummary:
  assumes "reachesInvocation env req db r"
  shows "generateBookSummary env req db =
     \<lparr> response = fst (tryCatch env req r),
       store = snd (isGlobalLimitReached (globalCheckNow env)
                 (snd (isRateLimited (getClientIp req) (rateCheckNow env) db))),
       invocation = snd (tryCatch env req r) \<rparr>"
  using assms unfolding generateBookSummary_unfold reachesInvocation_def
  by (simp add: Let_def)


lemma tryCatch_caught:
  "fst (tryCatch env req r) =
     (case fst (tryBlock env req r) of Inl e \<Rightarrow> catchBlock env r e | Inr resp \<Rightarrow> resp)"
  by (cases "tryBlock env req r") (simp add: tryCatch_def split: sum.split)

lemma tryCatch_run: "snd (tryCatch env req r) = snd (tryBlock env req r)"
  by (cases "tryBlock env req r") (simp add: tryCatch_def split: sum.split)



lemma catchBlock_rate_limit:
  "isRateLimit_handler e \<Longrightarrow>
     catchBlock env r e =
       \<lparr> statusCode = 200,
         responseBody = FallbackBody (fallbackSummary_of env r) (language r \<noteq> targetLanguage r) \<rparr>"
  by (simp add: catchBlock_def)




lemma retry_signal_is_handler_signal: "isRateLimit_retry e \<Longrightarrow> isRateLimit_handler e"
  by (auto simp: isRateLimit_retry_def isRateLimit_handler_def)



lemma tryBlock_invoked:
  assumes "httpMethod req = js ''POST''" and "apiKey env \<noteq> []"
  shows "tryBlock env req r =
     (let run = callOpenAIWithRetry (openai_create env) 3
      in (case result run of
            Thrown e \<Rightarrow> (Inl e, run)
          | ReturnedUndefined \<Rightarrow>
              (Inl (new_Error
                 (js ''Cannot read properties of undefined (reading '' @ [39]
                  @ js ''choices'' @ [39] @ js '')'')), run)
          | Returned completion \<Rightarrow>
              (case choice_content completion of
                 None \<Rightarrow> (Inl (new_Error (js ''No response from OpenAI'')), run)
               | Some aiResponse \<Rightarrow>
                   if aiResponse = []
                   then (Inl (new_Error (js ''No response from OpenAI'')), run)
                   else
                     (case JSON_parse (runtime env) aiResponse of
                        Inl m \<Rightarrow> (Inl (new_Error m), run)
                      | Inr parsedResponse \<Rightarrow>
                          (Inr \<lparr> statusCode = 200,
                                 responseBody =
                                   SuccessBody (aiSummary_of env r parsedResponse) \<rparr>,
                           run)))))"
  using assms by (simp add: tryBlock_def)

lemma tryBlock_thrown:
  assumes "httpMethod req = js ''POST''" and "apiKey env \<noteq> []"
    and "callOpenAIWithRetry (openai_create env) 3
           = \<lparr> result = Thrown e, delays = ds, attempts = n \<rparr>"
  shows "tryBlock env req r = (Inl e, \<lparr> result = Thrown e, delays = ds, attempts = n \<rparr>)"
  using assms by (simp add: tryBlock_invoked Let_def)



lemma caughtError_thrown:
  assumes "reachesInvocation env req db r"
    and "callOpenAIWithRetry (openai_create env) 3
           = \<lparr> result = Thrown e, delays = ds, attempts = n \<rparr>"
  shows "caughtError env req r = Some e"
    and "invocation (generateBookSummary env req db)
           = \<lparr> result = Thrown e, delays = ds, attempts = n \<rparr>"
proof -
  from assms(1) have "httpMethod req = js ''POST''" and "apiKey env \<noteq> []"
    by (simp_all add: reachesInvocation_def)
  from tryBlock_thrown [OF this assms(2)]
  have t: "tryBlock env req r = (Inl e, \<lparr> result = Thrown e, delays = ds, attempts = n \<rparr>)" .
  then show "caughtError env req r = Some e"
    by (simp add: caughtError_def)
  from t show "invocation (generateBookSummary env req db)
      = \<lparr> result = Thrown e, delays = ds, attempts = n \<rparr>"
    by (simp add: reaches_generateBookSummary [OF assms(1)] tryCatch_run)
qed

lemma response_of_caught:
  assumes "reachesInvocation env req db r" and "caughtError env req r = Some e"
  shows "response (generateBookSummary env req db) = catchBlock env r e"
  using assms(2)
  by (simp add: reaches_generateBookSummary [OF assms(1)] tryCatch_caught caughtError_def
      split: sum.splits)

lemma example_reaches:
  "reachesInvocation (example_env svc) example_request empty_firestore nexus_request"
  by (simp add: reachesInvocation_def example_env_def example_request_def nexus_request_def
      empty_firestore_def isRateLimited_def isGlobalLimitReached_def Let_def js_def)







subsection \<open>The length limits on both paths\<close>

lemma verbose_reaches:
  "reachesInvocation verbose_env example_request empty_firestore nexus_request"
  by (simp add: reachesInvocation_def verbose_env_def example_env_def example_request_def
      nexus_request_def empty_firestore_def isRateLimited_def isGlobalLimitReached_def
      Let_def js_def)

lemma verbose_response:
  "response (generateBookSummary verbose_env example_request empty_firestore)
     = \<lparr> statusCode = 200,
         responseBody = SuccessBody (aiSummary_of verbose_env nexus_request long_response) \<rparr>"
proof -
  have post: "httpMethod example_request = js ''POST''" and key: "apiKey verbose_env \<noteq> []"
    using verbose_reaches by (simp_all add: reachesInvocation_def)
  have svc: "openai_create verbose_env = recovering_service"
    by (simp add: verbose_env_def example_env_def)
  have signal: "isRateLimit_retry error_429"
    by (simp add: isRateLimit_retry_def error_429_def)
  have run: "callOpenAIWithRetry (openai_create verbose_env) 3
      = \<lparr> result = Returned \<lparr> choice_content = Some (js ''{}'') \<rparr>,
          delays = [500, 1000], attempts = 3 \<rparr>"
    unfolding svc retry_three_unfolded by (simp add: recovering_service_def signal)
  have parse: "JSON_parse (runtime verbose_env) (js ''{}'') = Inr long_response"
    by (simp add: verbose_env_def)
  have "js ''{}'' \<noteq> []"
    by (simp add: js_def)
  then show ?thesis
    by (simp add: reaches_generateBookSummary [OF verbose_reaches] tryCatch_caught
        tryBlock_invoked [OF post key] run parse Let_def)
qed

text \<open>Claim C7 on the success path, for a response whose texts have 400 and 1200
  code units, and on the fallback path.\<close>

theorem generateBookSummary_summary_lengths_witness:
  "responseBody (response (generateBookSummary verbose_env example_request empty_firestore))
     = SuccessBody (aiSummary_of verbose_env nexus_request long_response)
   \<and> length (shortSummary (aiSummary_of verbose_env nexus_request long_response)) \<le> 300
   \<and> length (detailedSummary (aiSummary_of verbose_env nexus_request long_response)) \<le> 1000
   \<and> responseBody (response (generateBookSummary (example_env always_429)
         example_request empty_firestore))
       = FallbackBody (fallbackSummary_of (example_env always_429) nexus_request)
           True
   \<and> length (shortSummary
         (fallbackSummary_of (example_env always_429) nexus_request)) \<le> 300
   \<and> length (detailedSummary
         (fallbackSummary_of (example_env always_429) nexus_request)) \<le> 1000"
proof -
  let ?env = "example_env (\<lambda>k. Rejected error_429)"
  have reach: "reachesInvocation ?env example_request empty_firestore nexus_request"
    by (rule example_reaches)
  have svc: "openai_create ?env = (\<lambda>k. Rejected error_429)"
    by (simp add: example_env_def)
  have signal: "isRateLimit_retry error_429"
    by (simp add: isRateLimit_retry_def error_429_def)
  have run: "callOpenAIWithRetry (openai_create ?env) 3
      = \<lparr> result = Thrown error_429, delays = [500, 1000], attempts = 3 \<rparr>"
    unfolding svc retry_three_unfolded by (simp add: signal)
  have lang: "language nexus_request \<noteq> targetLanguage nexus_request"
    by (simp add: nexus_request_def js_def)
  have fb: "response (generateBookSummary ?env example_request empty_firestore)
      = \<lparr> statusCode = 200,
          responseBody = FallbackBody (fallbackSummary_of ?env nexus_request) True \<rparr>"
    using caughtError_thrown [OF reach run] response_of_caught [OF reach]
      catchBlock_rate_limit [OF retry_signal_is_handler_signal [OF signal]] lang
    by simp
  from generateBookSummary_summary_lengths [of verbose_env example_request empty_firestore]
    generateBookSummary_summary_lengths [of ?env example_request empty_firestore]
  show ?thesis
    unfolding always_429_def
    by (simp add: verbose_response fb)
qed

subsection \<open>Translation and the confidence figures\<close>

text \<open>
  Claim C2 (as amended).  In the scorer \<open>calculateDetailedConfidence\<close>, for every
  book and either value of \<open>usesFallback\<close>, the run with \<open>translationApplied\<close> has
  a strictly lower translation-quality factor, a strictly lower AI-processing score
  and a strictly lower overall score (before and after rounding) than the run
  without, while its language-consistency factor is the same: that factor depends on
  \<open>usesFallback\<close> only.  In the attribution of the cloud function the
  language-consistency factor is 75 when the language of the book differs from the
  target language and 95 when it does not.
\<close>

theorem translation_lowers_scores:
  "translationQuality (aiProcessingFactors uf True)
     < translationQuality (aiProcessingFactors uf False)
   \<and> languageConsistency (aiProcessingFactors uf True)
       = languageConsistency (aiProcessingFactors uf False)
   \<and> aiProcessingScore uf True < aiProcessingScore uf False
   \<and> aiProcessing (detailedBreakdown (fst (calculateDetailedConfidence b uf True)))
       < aiProcessing (detailedBreakdown (fst (calculateDetailedConfidence b uf False)))
   \<and> overallScore b uf True < overallScore b uf False
   \<and> cm_overallScore (fst (calculateDetailedConfidence b uf True))
       < cm_overallScore (fst (calculateDetailedConfidence b uf False))
   \<and> languageConsistency
         (group_factors (dcf_aiProcessing (ed_detailedConfidenceFactors
            (generateCloudFunctionSourceAttribution r uf))))
       = (if language r \<noteq> targetLanguage r then 75 else 95)
   \<and> score (dcf_aiProcessing (ed_detailedConfidenceFactors
         (generateCloudFunctionSourceAttribution r uf)))
       = (if language r \<noteq> targetLanguage r then 75 else if uf then 88 else 90)"
proof -
  have factors: "translationQuality (aiProcessingFactors uf True)
        < translationQuality (aiProcessingFactors uf False)"
    "languageConsistency (aiProcessingFactors uf True)
        = languageConsistency (aiProcessingFactors uf False)"
    by (simp_all add: aiProcessingFactors_def)
  have ai: "aiProcessingScore uf True < aiProcessingScore uf False"
    by (simp add: aiProcessingScore_translation)
  have ai_round: "Math_round (aiProcessingScore uf True)
      < Math_round (aiProcessingScore uf False)"
    by (rule Math_round_less) (simp add: aiProcessingScore_translation)
  have overall: "overallScore b uf True < overallScore b uf False"
    by (simp add: overallScore_translated)
  have overall_round: "Math_round (overallScore b uf True)
      < Math_round (overallScore b uf False)"
    by (rule Math_round_less) (simp add: overallScore_translated)
  have cloud: "languageConsistency
         (group_factors (dcf_aiProcessing (ed_detailedConfidenceFactors
            (generateCloudFunctionSourceAttribution r uf))))
       = (if language r \<noteq> targetLanguage r then 75 else 95)"
    "score (dcf_aiProcessing (ed_detailedConfidenceFactors
         (generateCloudFunctionSourceAttribution r uf)))
       = (if language r \<noteq> targetLanguage r then 75 else if uf then 88 else 90)"
    by (simp_all add: generateCloudFunctionSourceAttribution_def Let_def)
  from factors ai ai_round overall overall_round cloud show ?thesis
    by (simp add: calculateDetailedConfidence_def Let_def)
qed

text \<open>
  Claim C2 as stated fails on the language-consistency factor of the scorer: it is 85
  for an AI summary with and without translation, so it is not strictly lower with
  translation.
\<close>

theorem languageConsistency_ignores_translation:
  "languageConsistency (aiProcessingFactors False True) = 85
   \<and> languageConsistency (aiProcessingFactors False False) = 85
   \<and> \<not> languageConsistency (aiProcessingFactors False True)
         < languageConsistency (aiProcessingFactors False False)"
  by (simp add: aiProcessingFactors_def)

section \<open>Properties of the counters\<close>

declare nat_toString.simps [simp del]

lemma digits_value_snoc: "digits_value (ds @ [d]) = 10 * digits_value ds + (d - 48)"
  by (simp add: digits_value_def)

lemma digits_value_nat_toString: "digits_value (nat_toString n) = n"
proof (induction n rule: nat_toString.induct)
  case (1 n)
  show ?case
  proof (cases "n < 10")
    case True
    then show ?thesis
      by (simp add: nat_toString.simps [of n] digits_value_def)
  next
    case False
    with "1" show ?thesis
      by (simp add: nat_toString.simps [of n] digits_value_snoc)
  qed
qed

lemma nat_toString_inject: "nat_toString a = nat_toString b \<longleftrightarrow> a = b"
  using digits_value_nat_toString by metis

lemma rateLimitDocId_window:
  "rateLimitDocId ip a = rateLimitDocId ip b \<longleftrightarrow> hourStart a = hourStart b"
  by (simp add: rateLimitDocId_def nat_toString_inject)

lemma isRateLimited_passes:
  assumes "hourlyCount db ip now < MAX_REQUESTS_PER_HOUR"
  shows "isRateLimited ip now db =
     (False,
      db\<lparr> rateLimits :=
            (rateLimits db)(rateLimitDocId ip now
               \<mapsto> \<lparr> count = hourlyCount db ip now + 1, timestamp = hourStart now \<rparr>),
          oplog :=
            oplog db @
              [Get RateLimits (rateLimitDocId ip now),
               Set RateLimits (rateLimitDocId ip now)
                 \<lparr> count = hourlyCount db ip now + 1, timestamp = hourStart now \<rparr>] \<rparr>)"
  using assms
  by (cases "rateLimits db (rateLimitDocId ip now)")
    (simp_all add: isRateLimited_def hourlyCount_def Let_def)

lemma isRateLimited_refuses:
  assumes "MAX_REQUESTS_PER_HOUR \<le> hourlyCount db ip now"
  shows "isRateLimited ip now db =
     (True, db\<lparr> oplog := oplog db @ [Get RateLimits (rateLimitDocId ip now)] \<rparr>)"
  using assms
  by (cases "rateLimits db (rateLimitDocId ip now)")
    (simp_all add: isRateLimited_def hourlyCount_def Let_def MAX_REQUESTS_PER_HOUR_def)

lemma isGlobalLimitReached_rateLimits:
  "rateLimits (snd (isGlobalLimitReached d db)) = rateLimits db"
  by (simp add: isGlobalLimitReached_def Let_def)

lemma tryCatch_no_FailureBody: "responseBody (fst (tryCatch env req r)) \<noteq> FailureBody m"
proof (cases "fst (tryBlock env req r)")
  case (Inl e)
  then show ?thesis
    by (simp add: tryCatch_caught catchBlock_def)
next
  case (Inr resp)
  then have "responseBody resp \<noteq> FailureBody m"
    by (auto simp: tryBlock_def Let_def
        split: if_splits retry_result.splits option.splits sum.splits)
  with Inr show ?thesis
    by (simp add: tryCatch_caught)
qed

lemma tryCatch_not_refusal: "fst (tryCatch env req r) \<noteq> rateLimitRefusal"
proof
  assume "fst (tryCatch env req r) = rateLimitRefusal"
  then have "responseBody (fst (tryCatch env req r))
      = FailureBody (js ''Rate limit exceeded. Please try again later.'')"
    by (simp add: rateLimitRefusal_def)
  with tryCatch_no_FailureBody show False by blast
qed

lemma other_responses_not_refusal:
  "\<lparr> statusCode = 503, responseBody = b \<rparr> \<noteq> rateLimitRefusal"
  "\<lparr> statusCode = 400, responseBody = b \<rparr> \<noteq> rateLimitRefusal"
  by (simp_all add: rateLimitRefusal_def)

lemma handler_passes:
  assumes "hourlyCount db (getClientIp req) (rateCheckNow env) < MAX_REQUESTS_PER_HOUR"
  shows "response (generateBookSummary env req db) \<noteq> rateLimitRefusal"
    and "rateLimits (store (generateBookSummary env req db)) =
           (rateLimits db)(rateLimitDocId (getClientIp req) (rateCheckNow env)
              \<mapsto> \<lparr> count = hourlyCount db (getClientIp req) (rateCheckNow env) + 1,
                   timestamp = hourStart (rateCheckNow env) \<rparr>)"
  unfolding generateBookSummary_unfold isRateLimited_passes [OF assms]
  by (simp_all add: Let_def isGlobalLimitReached_rateLimits tryCatch_not_refusal
      other_responses_not_refusal split: option.split)

lemma handler_refuses:
  assumes "MAX_REQUESTS_PER_HOUR \<le> hourlyCount db (getClientIp req) (rateCheckNow env)"
  shows "generateBookSummary env req db =
     \<lparr> response = rateLimitRefusal,
       store = db\<lparr> oplog := oplog db
                 @ [Get RateLimits (rateLimitDocId (getClientIp req) (rateCheckNow env))] \<rparr>,
       invocation = no_run \<rparr>"
  unfolding generateBookSummary_unfold isRateLimited_refuses [OF assms]
  by (simp add: Let_def)

lemma hourlyCount_windowCounter:
  assumes "rateLimits db = windowCounter (rateLimitDocId ip t) h c"
  shows "hourlyCount db ip t = int c"
  using assms by (simp add: hourlyCount_def windowCounter_def)

lemma hourlyCount_other_window:
  assumes "rateLimits db = windowCounter (rateLimitDocId ip t) h c"
    and "hourStart t' \<noteq> hourStart t"
  shows "hourlyCount db ip t' = 0"
  using assms by (simp add: hourlyCount_def windowCounter_def rateLimitDocId_window)

lemma windowCounter_step:
  "(windowCounter docId h c)(docId \<mapsto> \<lparr> count = int c + 1, timestamp = h \<rparr>)
     = windowCounter docId h (Suc c)"
  by (simp add: windowCounter_def add.commute)

lemma same_window_docId:
  "hourStart a = hourStart b \<Longrightarrow> rateLimitDocId ip a = rateLimitDocId ip b"
  by (simp add: rateLimitDocId_window)

lemma handler_step_in_window:
  assumes "getClientIp req = ip" and "hourStart (rateCheckNow env) = hourStart t"
    and "rateLimits db = windowCounter (rateLimitDocId ip t) (hourStart t) c" and "c < 10"
  shows "response (generateBookSummary env req db) \<noteq> rateLimitRefusal"
    and "rateLimits (store (generateBookSummary env req db))
           = windowCounter (rateLimitDocId ip t) (hourStart t) (Suc c)"
proof -
  have docId: "rateLimitDocId ip (rateCheckNow env) = rateLimitDocId ip t"
    using assms(2) by (rule same_window_docId)
  have cnt: "hourlyCount db ip (rateCheckNow env) = int c"
    using assms(3) by (simp add: hourlyCount_def docId windowCounter_def)
  then have under: "hourlyCount db (getClientIp req) (rateCheckNow env) < MAX_REQUESTS_PER_HOUR"
    using assms(1,4) by (simp add: MAX_REQUESTS_PER_HOUR_def)
  from handler_passes(1) [OF under]
  show "response (generateBookSummary env req db) \<noteq> rateLimitRefusal" .
  from handler_passes(2) [OF under]
  show "rateLimits (store (generateBookSummary env req db))
      = windowCounter (rateLimitDocId ip t) (hourStart t) (Suc c)"
    using assms(1,2,3) by (simp add: docId cnt windowCounter_step)
qed

lemma serve_in_window:
  assumes "fromClientInWindow ip (hourStart t) reqs"
    and "rateLimits db = windowCounter (rateLimitDocId ip t) (hourStart t) c"
    and "c + length reqs \<le> 10"
  shows "rateLimitRefusal \<notin> set (fst (serve reqs db))
       \<and> rateLimits (snd (serve reqs db))
           = windowCounter (rateLimitDocId ip t) (hourStart t) (c + length reqs)
       \<and> length (fst (serve reqs db)) = length reqs"
  using assms
proof (induction reqs arbitrary: db c)
  case Nil
  then show ?case by simp
next
  case (Cons a reqs)
  obtain env req where a: "a = (env, req)" by (cases a)
  from Cons.prems(1) have here: "getClientIp req = ip"
    "hourStart (rateCheckNow env) = hourStart t"
    and rest: "fromClientInWindow ip (hourStart t) reqs"
    by (simp_all add: fromClientInWindow_def a)
  from Cons.prems(3) have c: "c < 10" and c': "Suc c + length reqs \<le> 10"
    by simp_all
  note step = handler_step_in_window [OF here Cons.prems(2) c]
  from Cons.IH [OF rest step(2) c'] step(1) show ?case
    by (simp add: a Let_def)
qed

lemma fromClientInWindow_take:
  "fromClientInWindow ip h reqs \<Longrightarrow> fromClientInWindow ip h (take n reqs)"
  by (auto simp: fromClientInWindow_def list_all_iff dest: in_set_takeD)

text \<open>
  Claim C6.  Let ten requests of one client, all in the hour window that starts at
  \<open>h\<close>, be served one after the other from the empty counter store.  None of them is
  refused by the hourly check, and after the first \<open>n\<close> of them the client's counter
  of the window stands at \<open>n\<close>.  An eleventh request of the client in the same window
  is answered with the rate-limit refusal (429) without any external call, and a
  request of the client in another hour window, served after it, is not refused by
  the hourly check.
\<close>

theorem hourly_rate_limit_window:
  assumes "length reqs = 10" and "fromClientInWindow ip h reqs"
    and "getClientIp req11 = ip" and "hourStart (rateCheckNow env11) = h"
    and "getClientIp req12 = ip" and "hourStart (rateCheckNow env12) \<noteq> h"
  shows "rateLimitRefusal \<notin> set (fst (serve reqs empty_firestore))
     \<and> length (fst (serve reqs empty_firestore)) = 10
     \<and> (\<forall>n\<le>10. hourlyCount (snd (serve (take n reqs) empty_firestore)) ip
                    (rateCheckNow env11) = int n)
     \<and> response (generateBookSummary env11 req11 (snd (serve reqs empty_firestore)))
         = rateLimitRefusal
     \<and> attempts (invocation
           (generateBookSummary env11 req11 (snd (serve reqs empty_firestore)))) = 0
     \<and> response (generateBookSummary env12 req12
           (store (generateBookSummary env11 req11 (snd (serve reqs empty_firestore)))))
         \<noteq> rateLimitRefusal"
proof -
  let ?t = "rateCheckNow env11"
  let ?docId = "rateLimitDocId ip ?t"
  let ?db10 = "snd (serve reqs empty_firestore)"
  let ?run11 = "generateBookSummary env11 req11 ?db10"
  have window: "fromClientInWindow ip (hourStart ?t) reqs"
    using assms(2,4) by simp
  have start: "rateLimits empty_firestore = windowCounter ?docId (hourStart ?t) 0"
    by (simp add: empty_firestore_def windowCounter_def)
  have prefix: "rateLimitRefusal \<notin> set (fst (serve (take n reqs) empty_firestore))
      \<and> rateLimits (snd (serve (take n reqs) empty_firestore))
          = windowCounter ?docId (hourStart ?t) (0 + length (take n reqs))
      \<and> length (fst (serve (take n reqs) empty_firestore)) = length (take n reqs)" for n
    using assms(1)
    by (intro serve_in_window [OF fromClientInWindow_take [OF window] start]) simp
  from prefix [of 10] assms(1)
  have ten: "rateLimitRefusal \<notin> set (fst (serve reqs empty_firestore))"
    "rateLimits ?db10 = windowCounter ?docId (hourStart ?t) 10"
    "length (fst (serve reqs empty_firestore)) = 10"
    by simp_all
  have counts: "\<forall>n\<le>10. hourlyCount (snd (serve (take n reqs) empty_firestore)) ip ?t = int n"
  proof (intro allI impI)
    fix n :: nat
    assume "n \<le> 10"
    with assms(1) have "length (take n reqs) = n" by simp
    with prefix [of n] show "hourlyCount (snd (serve (take n reqs) empty_firestore)) ip ?t = int n"
      by (simp add: hourlyCount_windowCounter)
  qed
  have capped: "MAX_REQUESTS_PER_HOUR \<le> hourlyCount ?db10 (getClientIp req11) ?t"
    using hourlyCount_windowCounter [OF ten(2)] assms(3)
    by (simp add: MAX_REQUESTS_PER_HOUR_def)
  note refused = handler_refuses [OF capped]
  have eleven: "response ?run11 = rateLimitRefusal" "attempts (invocation ?run11) = 0"
    "rateLimits (store ?run11) = windowCounter ?docId (hourStart ?t) 10"
    by (simp_all add: refused no_run_def ten(2))
  from assms(4,6) have other: "hourStart (rateCheckNow env12) \<noteq> hourStart ?t"
    by blast
  have "hourlyCount (store ?run11) ip (rateCheckNow env12) = 0"
    using eleven(3) other by (rule hourlyCount_other_window)
  then have "hourlyCount (store ?run11) (getClientIp req12) (rateCheckNow env12)
      < MAX_REQUESTS_PER_HOUR"
    using assms(5) by (simp add: MAX_REQUESTS_PER_HOUR_def)
  from handler_passes(1) [OF this] ten(1,3) counts eleven(1,2) show ?thesis
    by simp
qed

lemma example_client: "getClientIp example_request = js ''203.0.113.7''"
  by (simp add: getClientIp_def example_request_def js_def)

text \<open>Claim C6 at ten requests of the client 203.0.113.7 within one hour, an eleventh
  in that hour and a twelfth an hour later.\<close>

theorem hourly_rate_limit_window_witness:
  "length (replicate 10 (example_env always_auth, example_request)) = 10
   \<and> fromClientInWindow (js ''203.0.113.7'') 1730541600000
       (replicate 10 (example_env always_auth, example_request))
   \<and> getClientIp example_request = js ''203.0.113.7''
   \<and> hourStart (rateCheckNow (example_env always_auth)) = 1730541600000
   \<and> hourStart (rateCheckNow (later_env always_auth)) \<noteq> 1730541600000
   \<and> rateLimitRefusal
       \<notin> set (fst (serve (replicate 10 (example_env always_auth, example_request))
                  empty_firestore))
   \<and> hourlyCount
         (snd (serve (replicate 10 (example_env always_auth, example_request))
                empty_firestore))
         (js ''203.0.113.7'') (rateCheckNow (example_env always_auth)) = 10
   \<and> response (generateBookSummary (example_env always_auth) example_request
         (snd (serve (replicate 10 (example_env always_auth, example_request))
                empty_firestore)))
       = rateLimitRefusal
   \<and> response (generateBookSummary (later_env always_auth) example_request
         (store (generateBookSummary (example_env always_auth) example_request
            (snd (serve (replicate 10 (example_env always_auth, example_request))
                   empty_firestore)))))
       \<noteq> rateLimitRefusal"
proof -
  let ?env = "example_env (\<lambda>k. Rejected error_auth)"
  let ?later = "later_env (\<lambda>k. Rejected error_auth)"
  let ?reqs = "replicate 10 (?env, example_request)"
  have len: "length ?reqs = 10"
    by simp
  have now: "hourStart (rateCheckNow ?env) = 1730541600000"
    by (simp add: example_env_def hourStart_def)
  have later: "hourStart (rateCheckNow ?later) \<noteq> 1730541600000"
    by (simp add: later_env_def hourStart_def)
  have window: "fromClientInWindow (js ''203.0.113.7'') 1730541600000 ?reqs"
    by (simp add: fromClientInWindow_def list_all_iff example_client now)
  note inst = hourly_rate_limit_window [OF len window example_client now example_client later]
  from inst have ten: "hourlyCount (snd (serve (take 10 ?reqs) empty_firestore))
      (js ''203.0.113.7'') (rateCheckNow ?env) = int 10"
    by blast
  from inst ten len window example_client now later show ?thesis
    unfolding always_auth_def
    by simp
qed

text \<open>
  Claim C10.  A request that arrives while the hourly counter of its client stands at
  the cap of 10 (or above) is answered with the rate-limit refusal, and the only
  access to the database is the read of that one document of \<open>rateLimits\<close>: the
  hourly counter is not incremented, the collection \<open>globalUsage\<close> is neither read
  nor written, and no external call is made.
\<close>

theorem refusal_leaves_counters:
  assumes "MAX_REQUESTS_PER_HOUR \<le> hourlyCount db (getClientIp req) (rateCheckNow env)"
  shows "generateBookSummary env req db =
       \<lparr> response = rateLimitRefusal,
         store = db\<lparr> oplog := oplog db
                   @ [Get RateLimits (rateLimitDocId (getClientIp req) (rateCheckNow env))] \<rparr>,
         invocation = no_run \<rparr>
     \<and> rateLimits (store (generateBookSummary env req db)) = rateLimits db
     \<and> globalUsage (store (generateBookSummary env req db)) = globalUsage db
     \<and> hourlyCount (store (generateBookSummary env req db)) (getClientIp req)
           (rateCheckNow env)
         = hourlyCount db (getClientIp req) (rateCheckNow env)
     \<and> attempts (invocation (generateBookSummary env req db)) = 0"
  by (simp add: handler_refuses [OF assms] hourlyCount_def no_run_def)

text \<open>Claim C10 at a database in which the client's counter stands at 10.\<close>

theorem refusal_leaves_counters_witness:
  "MAX_REQUESTS_PER_HOUR
     \<le> hourlyCount capped_firestore (getClientIp example_request)
         (rateCheckNow (example_env always_auth))
   \<and> hourlyCount capped_firestore (getClientIp example_request)
         (rateCheckNow (example_env always_auth)) = 10
   \<and> response (generateBookSummary (example_env always_auth) example_request
         capped_firestore) = rateLimitRefusal
   \<and> rateLimits (store (generateBookSummary (example_env always_auth)
         example_request capped_firestore)) = rateLimits capped_firestore
   \<and> globalUsage (store (generateBookSummary (example_env always_auth)
         example_request capped_firestore)) = Map.empty
   \<and> oplog (store (generateBookSummary (example_env always_auth)
         example_request capped_firestore))
       = [Get RateLimits (rateLimitDocId (js ''203.0.113.7'') 1730541723000)]"
proof -
  let ?env = "example_env (\<lambda>k. Rejected error_auth)"
  have now: "rateCheckNow ?env = 1730541723000"
    by (simp add: example_env_def)
  have cnt: "hourlyCount capped_firestore (getClientIp example_request) (rateCheckNow ?env) = 10"
    by (simp add: hourlyCount_def capped_firestore_def example_client now)
  then have cap: "MAX_REQUESTS_PER_HOUR
      \<le> hourlyCount capped_firestore (getClientIp example_request) (rateCheckNow ?env)"
    by (simp add: MAX_REQUESTS_PER_HOUR_def)
  from refusal_leaves_counters [OF cap] cap cnt show ?thesis
    unfolding always_auth_def
    by (simp add: example_client now capped_firestore_def empty_firestore_def)
qed

section \<open>Properties of the language guards\<close>







end
